theory Spec2Isabelle
  imports Main "HOL-Library.Sublist" "HOL-Library.Multiset"
begin

section \<open>Exceptions\<close>

text \<open>
  The Python exceptions that \<^verbatim>\<open>config.py\<close> raises itself or lets escape from a
  builtin.  \<^verbatim>\<open>ValueError\<close> and \<^verbatim>\<open>NotImplementedError\<close> carry their message,
  \<^verbatim>\<open>KeyError\<close> the missing key.  The specification's names map onto them as follows:
  \<^verbatim>\<open>NotFoundError\<close>, \<^verbatim>\<open>InvalidGroupCountError\<close>, \<^verbatim>\<open>UnknownArtifactKindError\<close>,
  \<^verbatim>\<open>UnknownEnumValueError\<close> and \<^verbatim>\<open>ValidationError\<close> are all \<^verbatim>\<open>ValueError\<close> in the
  code, told apart by their message; \<^verbatim>\<open>UnimplementedCombinationError\<close> is
  \<^verbatim>\<open>NotImplementedError\<close>.
\<close>

datatype error =
    ValueError string
  | IndexError
  | KeyError string
  | TypeError
  | NotImplementedError string
  | FileNotFoundError string

section \<open>Station ordering\<close>

subsection \<open>\<^verbatim>\<open>list.index\<close>\<close>

text \<open>
  \<^verbatim>\<open>lst.index(x)\<close>: the position of the first element equal to \<^verbatim>\<open>x\<close>; \<^verbatim>\<open>None\<close> stands
  for the \<^verbatim>\<open>ValueError\<close> that Python raises when there is none.
\<close>

fun list_index :: "'a list \<Rightarrow> 'a \<Rightarrow> nat option" where
  "list_index [] x = None"
| "list_index (y # ys) x = (if y = x then Some 0 else map_option Suc (list_index ys x))"

definition not_in_list :: error where
  "not_in_list = ValueError ''x not in list''"

subsection \<open>\<^verbatim>\<open>get_order\<close> (lines 83--93)\<close>

text \<open>
  \<^verbatim>\<open>
  def get_order(lst, st1, st2):
      id1 = lst.index(st1)
      id2 = lst.index(st2)
      if id1 <= id2:
          return [st1, st2]
      else:
          return [st2, st1]
  \<close>
  The two-element list that is returned is always unpacked by the caller; it is a pair here.
\<close>

definition get_order :: "'a list \<Rightarrow> 'a \<Rightarrow> 'a \<Rightarrow> error + ('a \<times> 'a)" where
  "get_order lst st1 st2 =
     (case list_index lst st1 of
        None \<Rightarrow> Inl not_in_list
      | Some id1 \<Rightarrow>
          (case list_index lst st2 of
             None \<Rightarrow> Inl not_in_list
           | Some id2 \<Rightarrow> if id1 \<le> id2 then Inr (st1, st2) else Inr (st2, st1)))"

subsection \<open>\<^verbatim>\<open>group_sta\<close> (lines 61--80)\<close>

text \<open>
  \<^verbatim>\<open>
  def group_sta(lst, lnum):
      num = list(set(lnum))
      if len(num) != 2:
          raise ValueError('# of group != 2.')
      else:
          g0 = []
          g1 = []
          for k, st in enumerate(lst):
              if lnum[k] == num[0]:
                  g0.append(st)
              else:
                  g1.append(st)
          return g0, g1
  \<close>
  The order in which \<^verbatim>\<open>list(set(lnum))\<close> lists the distinct labels depends on their hashes;
  it is the parameter \<open>set_order\<close>, of which the theorems assume only that it lists each
  distinct label once.  The loop is \<open>group_loop\<close>, with the counter \<open>k\<close> of \<^verbatim>\<open>enumerate\<close>;
  \<^verbatim>\<open>lnum[k]\<close> raises \<^verbatim>\<open>IndexError\<close> once \<open>k\<close> is past the end of \<^verbatim>\<open>lnum\<close>.
\<close>

fun group_loop ::
  "'b \<Rightarrow> 'b list \<Rightarrow> nat \<Rightarrow> 'a list \<Rightarrow> 'a list \<Rightarrow> 'a list \<Rightarrow> error + ('a list \<times> 'a list)" where
  "group_loop n0 lnum k [] g0 g1 = Inr (g0, g1)"
| "group_loop n0 lnum k (st # rest) g0 g1 =
     (if k < length lnum then
        (if lnum ! k = n0 then group_loop n0 lnum (Suc k) rest (g0 @ [st]) g1
         else group_loop n0 lnum (Suc k) rest g0 (g1 @ [st]))
      else Inl IndexError)"

definition group_sta ::
  "('b list \<Rightarrow> 'b list) \<Rightarrow> 'a list \<Rightarrow> 'b list \<Rightarrow> error + ('a list \<times> 'a list)" where
  "group_sta set_order lst lnum =
     (let num = set_order lnum in
      if length num \<noteq> 2 then Inl (ValueError ''# of group != 2.'')
      else group_loop (num ! 0) lnum 0 lst [] [])"

section \<open>Strings and paths\<close>

text \<open>
  Strings are \<open>string\<close>, read as ASCII text: the case mappings below are those of
  \<^verbatim>\<open>str.upper\<close> and \<^verbatim>\<open>str.lower\<close> on ASCII, where only the 26 letters change, and
  \<open>isspace\<close> is \<^verbatim>\<open>str.isspace\<close> on ASCII (tab to carriage return, the four separators
  28 to 31, and the space).
\<close>

definition ascii_lowercase :: string where
  "ascii_lowercase = ''abcdefghijklmnopqrstuvwxyz''"

definition ascii_uppercase :: string where
  "ascii_uppercase = ''ABCDEFGHIJKLMNOPQRSTUVWXYZ''"

definition upper_char :: "char \<Rightarrow> char" where
  "upper_char c =
     (case map_of (zip ascii_lowercase ascii_uppercase) c of Some u \<Rightarrow> u | None \<Rightarrow> c)"

definition lower_char :: "char \<Rightarrow> char" where
  "lower_char c =
     (case map_of (zip ascii_uppercase ascii_lowercase) c of Some l \<Rightarrow> l | None \<Rightarrow> c)"

definition upper :: "string \<Rightarrow> string" where
  "upper s = map upper_char s"

definition lower :: "string \<Rightarrow> string" where
  "lower s = map lower_char s"

definition isspace :: "char \<Rightarrow> bool" where
  "isspace c =
     (let n = (of_char c :: nat) in (9 \<le> n \<and> n \<le> 13) \<or> (28 \<le> n \<and> n \<le> 32))"

text \<open>
  \<^verbatim>\<open>line.split()\<close>: the maximal runs of characters that are not white space, in
  order; \<open>cur\<close> is the run being read.
\<close>

fun split_from :: "string \<Rightarrow> string \<Rightarrow> string list" where
  "split_from cur [] = (if cur = [] then [] else [cur])"
| "split_from cur (c # cs) =
     (if isspace c then (if cur = [] then split_from [] cs else cur # split_from [] cs)
      else split_from (cur @ [c]) cs)"

definition split :: "string \<Rightarrow> string list" where
  "split s = split_from [] s"

text \<open>\<^verbatim>\<open>sep.join(xs)\<close>.\<close>

fun str_join :: "string \<Rightarrow> string list \<Rightarrow> string" where
  "str_join s [] = []"
| "str_join s [x] = x"
| "str_join s (x # y # ys) = x @ s @ str_join s (y # ys)"

text \<open>
  What an f-string writes for a value that is a string or \<^verbatim>\<open>None\<close> (the default of
  the optional arguments of \<^verbatim>\<open>get_fnm\<close>).
\<close>

definition str :: "string option \<Rightarrow> string" where
  "str v = (case v of None \<Rightarrow> ''None'' | Some s \<Rightarrow> s)"

text \<open>
  \<^verbatim>\<open>xs[i]\<close> for a Python integer \<open>i\<close>: a negative index counts from the end, and
  \<open>None\<close> stands for \<^verbatim>\<open>IndexError\<close>.
\<close>

definition getitem :: "'a list \<Rightarrow> int \<Rightarrow> 'a option" where
  "getitem xs i =
     (let j = (if i < 0 then i + int (length xs) else i) in
      if 0 \<le> j \<and> j < int (length xs) then Some (xs ! nat j) else None)"

text \<open>
  \<^verbatim>\<open>os.path.join\<close>, \<^verbatim>\<open>basename\<close> and \<^verbatim>\<open>dirname\<close> of \<^verbatim>\<open>posixpath\<close>.  In \<open>join\<close> a
  component that starts with the separator discards what came before it, and a
  separator is added only after a non-empty path that does not end with one.
  \<open>rfind1 p\<close> is \<^verbatim>\<open>p.rfind('/') + 1\<close>.
\<close>

definition sep :: char where
  "sep = CHR ''/''"

definition join2 :: "string \<Rightarrow> string \<Rightarrow> string" where
  "join2 path b =
     (if b \<noteq> [] \<and> hd b = sep then b
      else if path = [] \<or> last path = sep then path @ b
      else path @ [sep] @ b)"

definition join :: "string \<Rightarrow> string list \<Rightarrow> string" where
  "join a p = foldl join2 a p"

definition rfind1 :: "string \<Rightarrow> nat" where
  "rfind1 p = length p - length (takeWhile (\<lambda>c. c \<noteq> sep) (rev p))"

definition basename :: "string \<Rightarrow> string" where
  "basename p = drop (rfind1 p) p"

definition rstrip_sep :: "string \<Rightarrow> string" where
  "rstrip_sep s = rev (dropWhile (\<lambda>c. c = sep) (rev s))"

definition dirname :: "string \<Rightarrow> string" where
  "dirname p =
     (let head = take (rfind1 p) p in
      if head \<noteq> [] \<and> head \<noteq> replicate (length head) sep then rstrip_sep head else head)"

section \<open>Configuration and module state\<close>

text \<open>
  \<open>param\<close> holds the entries of the parameter dictionary \<^verbatim>\<open>PARAM\<close> that the code
  reads, named section by section (\<^verbatim>\<open>PARAM['dir']['meta']\<close> is \<open>dir_meta\<close>).  Flags are
  read for their truth value only.  \<^verbatim>\<open>PARAM['interferometry']['type']\<close> is read at one
  place only (line 312) and by nothing else, so it is the one entry that may be missing:
  \<open>None\<close> there is the \<^verbatim>\<open>KeyError\<close> of the lookup.
\<close>

record param =
  dir_project :: string
  dir_out :: string
  dir_meta :: string
  dir_I2 :: string
  dir_I3 :: string
  dir_I3_rand :: string
  sfx_I2 :: string
  sfx_source :: string
  write_lag :: bool
  misc_wavetype :: string
  interferometry_operator :: string
  interferometry_type :: "string option"
  interferometry_nlag :: int
  interferometry_flip_nlag :: bool
  interferometry_spz :: bool
  interferometry_Welch :: bool
  fstation_receiver_name :: string
  fstation_receiver_group :: bool
  fstation_source :: string

text \<open>
  The module's global variables (lines 19--35 and 292).  \<open>'f\<close> is the type of floating
  point numbers, which the code only stores and returns.  The dictionaries \<^verbatim>\<open>STA2NET\<close>
  and \<^verbatim>\<open>STNM2LOLA\<close> are maps; the pair table \<^verbatim>\<open>PRED_PV\<close> is an association list read
  with \<open>map_of\<close>, since the code also tests it for emptiness.
\<close>

record 'f globals =
  PARAM :: param
  DIROUT :: string
  STA2NET :: "string \<rightharpoonup> string"
  STNM2LOLA :: "string \<rightharpoonup> 'f list"
  ALL_STATION :: "string list"
  RECEIVER_STATION :: "string list"
  RECEIVER_GROUP :: "string list option"
  SOURCE_STATION :: "string list"
  PHPRPER :: "'f list"
  PHPRVEL :: "'f list"
  PRED_PV :: "(string \<times> 'f list \<times> 'f list) list option"
  USE_CW :: bool
  USE_DW :: bool
  CONV :: bool
  CORR :: bool

text \<open>
  The state once \<^verbatim>\<open>PARAM\<close> is loaded and \<^verbatim>\<open>DIROUT\<close> is set (line 292), everything else
  as lines 19--35 initialise it.
\<close>

definition initial :: "param \<Rightarrow> 'f globals" where
  "initial p =
     \<lparr>PARAM = p, DIROUT = join (dir_project p) [dir_out p],
      STA2NET = Map.empty, STNM2LOLA = Map.empty, ALL_STATION = [],
      RECEIVER_STATION = [], RECEIVER_GROUP = None, SOURCE_STATION = [],
      PHPRPER = [], PHPRVEL = [], PRED_PV = None,
      USE_CW = False, USE_DW = False, CONV = False, CORR = False\<rparr>"

section \<open>\<^verbatim>\<open>get_pred_pv\<close> (lines 96--116)\<close>

text \<open>
  \<^verbatim>\<open>
  def get_pred_pv(n1, s1, n2, s2, pair=None, pair_r=None):
      per = PHPRPER
      pv = PHPRVEL
      if PRED_PV:
          if pair is None:
              pair = '_'.join([n1, s1, n2, s2])
              pair_r = '_'.join([n2, s2, n1, s1])
          if pair in PRED_PV:
              pass
          elif pair_r in PRED_PV:
              pair = pair_r
          else:
              return per, pv
          per = PRED_PV[pair][0]
          pv = PRED_PV[pair][1]
      return np.asarray(per), np.asarray(pv)
  \<close>
  \<^verbatim>\<open>if PRED_PV\<close> is false for \<^verbatim>\<open>None\<close> and for an empty table.  \<^verbatim>\<open>np.asarray\<close> changes
  the container and not the numbers, so it does not appear.
\<close>

definition get_pred_pv ::
  "'f globals \<Rightarrow> string \<Rightarrow> string \<Rightarrow> string \<Rightarrow> string \<Rightarrow> string option \<Rightarrow> string option \<Rightarrow>
     'f list \<times> 'f list" where
  "get_pred_pv g n1 s1 n2 s2 pair pair_r =
     (let per = PHPRPER g; pv = PHPRVEL g in
      case PRED_PV g of
        None \<Rightarrow> (per, pv)
      | Some tbl \<Rightarrow>
          if tbl = [] then (per, pv)
          else
            (let (pair, pair_r) =
               (case pair of
                  None \<Rightarrow>
                    (Some (str_join ''_'' [n1, s1, n2, s2]), Some (str_join ''_'' [n2, s2, n1, s1]))
                | Some _ \<Rightarrow> (pair, pair_r)) in
             case Option.bind pair (map_of tbl) of
               Some c \<Rightarrow> c
             | None \<Rightarrow>
                 (case Option.bind pair_r (map_of tbl) of
                    Some c \<Rightarrow> c
                  | None \<Rightarrow> (per, pv))))"

section \<open>\<^verbatim>\<open>get_fnm\<close> (lines 119--204)\<close>

text \<open>
  The result is one path or a list of paths, together with the directories that the call
  asked \<^verbatim>\<open>my.sys_tool.mkdir\<close> to create, in order.  The station arguments default to
  \<^verbatim>\<open>None\<close>, which \<^verbatim>\<open>ALL_STATION.index\<close> does not find; \<^verbatim>\<open>ALL_STATION\<close> itself holds
  strings only, so the two \<^verbatim>\<open>TypeError\<close> branches (what \<^verbatim>\<open>join\<close> raises on \<^verbatim>\<open>None\<close>)
  are never taken.
\<close>

datatype fnm = Path string | Paths "string list"

definition get_fnm ::
  "'f globals \<Rightarrow> string \<Rightarrow> string option \<Rightarrow> string option \<Rightarrow> string option \<Rightarrow>
     string option \<Rightarrow> string option \<Rightarrow> string option \<Rightarrow> error + (fnm \<times> string list)" where
  "get_fnm g kind sta1 sta2 sta3 lags pre I2 =
     (let p = PARAM g; kind = upper kind in
      if kind \<in> set [''I2_PATH''] then
        Inr (Path (join (DIROUT g) [dir_meta p, dir_out p @ sfx_I2 p]), [])
      else if kind \<in> set [''SOURCE'', ''SOURCE-STATION''] then
        Inr (Path (join (DIROUT g) [dir_meta p, dir_out p @ sfx_source p]), [])
      else
        (let (sta2, I2) =
           (case I2 of
              None \<Rightarrow> (sta2, None)
            | Some i2 \<Rightarrow> (Some (basename (dirname i2)), Some (basename i2))) in
         case get_order (map Some (ALL_STATION g)) sta1 sta2 of
           Inl e \<Rightarrow> Inl e
         | Inr (None, _) \<Rightarrow> Inl TypeError
         | Inr (Some _, None) \<Rightarrow> Inl TypeError
         | Inr (Some src, Some rec) \<Rightarrow>
             if kind = ''I2'' then
               Inr (Path (join (dir_project p)
                     [dir_I2 p, src, ''COR_'' @ src @ ''_'' @ rec @ ''.SAC'']), [])
             else if kind = ''I2_LAG_PROC'' then
               Inr (Path (join (DIROUT g)
                     [src, str pre @ ''_COR_'' @ src @ ''_'' @ rec @ ''.SAC'']), [])
             else if kind = ''C3'' then
               Inr (Path (join (DIROUT g)
                     [src, rec,
                      str sta3 @ ''_'' @ str lags @ ''_'' @ src @ ''_'' @ rec @ ''.SAC'']), [])
             else if kind = ''I3'' then
               Inr (Path (join (DIROUT g)
                     [dir_I3 p, src, ''I3_'' @ src @ ''_'' @ rec @ ''.SAC'']), [])
             else if kind = ''I3_RAND'' then
               Inr (Path (join (DIROUT g)
                     [dir_I3_rand p, src, rec, ''I3_'' @ src @ ''_'' @ rec @ ''.SAC'']), [])
             else if kind = ''I2_LAG_RAW'' then
               (let stadir = join (DIROUT g) [src];
                    made = (if write_lag p then [stadir] else []) in
                if interferometry_nlag p = 2 then
                  (let plag = join stadir [''P_'' @ str I2];
                       nlag = join stadir [''N_'' @ str I2] in
                   Inr (Paths [plag, nlag], made))
                else Inr (Paths [join stadir [''S_'' @ str I2]], made))
             else Inl (ValueError (''Unknow kind of file: '' @ kind @ ''.''))))"

section \<open>Checking the parameters\<close>

subsection \<open>Wave type and operator (lines 294--312)\<close>

text \<open>
  \<^verbatim>\<open>
  if PARAM['misc']['wavetype'].lower() in ['cw', 'coda', 'coda wave', 'coda-wave']:
      USE_CW = True
      USE_DW = False
  elif PARAM['misc']['wavetype'].lower() in ['dw', 'direct wave', 'direct-wave']:
      USE_CW = False
      USE_DW = True
  else:
      raise ValueError(f"Unknown type of signal {PARAM['misc']['wavetype']}")
  if PARAM['interferometry']['operator'].lower() in ['conv', 'convolution']:
      CONV = True
      CORR = False
  elif PARAM['interferometry']['operator'].lower() in ['corr', 'correlation']:
      CORR = True
      CONV = False
  else:
      raise ValueError(f"Unknown operator {PARAM['interferometry']['type']}")
  \<close>
  \<open>wavetype_flags\<close> returns \<open>(USE_CW, USE_DW)\<close> and \<open>operator_flags\<close> returns
  \<open>(CONV, CORR)\<close>.  The last message is built from the entry \<^verbatim>\<open>'type'\<close>, not from
  \<^verbatim>\<open>'operator'\<close>.
\<close>

definition wavetype_flags :: "param \<Rightarrow> error + (bool \<times> bool)" where
  "wavetype_flags p =
     (if lower (misc_wavetype p) \<in> set [''cw'', ''coda'', ''coda wave'', ''coda-wave''] then
        Inr (True, False)
      else if lower (misc_wavetype p) \<in> set [''dw'', ''direct wave'', ''direct-wave''] then
        Inr (False, True)
      else Inl (ValueError (''Unknown type of signal '' @ misc_wavetype p)))"

definition operator_flags :: "param \<Rightarrow> error + (bool \<times> bool)" where
  "operator_flags p =
     (if lower (interferometry_operator p) \<in> set [''conv'', ''convolution''] then
        Inr (True, False)
      else if lower (interferometry_operator p) \<in> set [''corr'', ''correlation''] then
        Inr (False, True)
      else
        (case interferometry_type p of
           None \<Rightarrow> Inl (KeyError ''type'')
         | Some t \<Rightarrow> Inl (ValueError (''Unknown operator '' @ t))))"

subsection \<open>\<^verbatim>\<open>_check\<close> (lines 210--229)\<close>

text \<open>
  \<^verbatim>\<open>
  def _check():
      p = PARAM
      if USE_CW:
          if CONV:
              raise ValueError('NO convolution of coda')
          if p['interferometry']['spz']:
              logger.warning('Using stationary phase zone for coda')
      elif USE_DW:
          if p['interferometry']['Welch']:
              raise ValueError("NOT use Welch's method for direct-wave")
      if (p['interferometry']['nlag'] == 4) and (not p['interferometry']['flip_nlag']):
          raise NotImplementedError('4 lags MUST use the symmetric component')
      return
  \<close>
  The result is the list of warnings that were logged, or the exception.
\<close>

definition check :: "'f globals \<Rightarrow> error + string list" where
  "check g =
     (let p = PARAM g in
      case
        (if USE_CW g then
           (if CONV g then Inl (ValueError ''NO convolution of coda'')
            else if interferometry_spz p then Inr [''Using stationary phase zone for coda'']
            else Inr [])
         else if USE_DW g then
           (if interferometry_Welch p then
              Inl (ValueError ''NOT use Welch's method for direct-wave'')
            else Inr [])
         else Inr [])
      of
        Inl e \<Rightarrow> Inl e
      | Inr warnings \<Rightarrow>
          if interferometry_nlag p = 4 \<and> \<not> interferometry_flip_nlag p then
            Inl (NotImplementedError ''4 lags MUST use the symmetric component'')
          else Inr warnings)"

subsection \<open>The start of the module (lines 292--312 and 323)\<close>

text \<open>
  What the module runs, when \<^verbatim>\<open>make_doc\<close> is off, from the loaded parameters up to and
  including \<^verbatim>\<open>_check()\<close>; reading the dispersion files in between is left out.
\<close>

definition configure :: "param \<Rightarrow> error + ('f globals \<times> string list)" where
  "configure p =
     (case wavetype_flags p of
        Inl e \<Rightarrow> Inl e
      | Inr (cw, dw) \<Rightarrow>
          (case operator_flags p of
             Inl e \<Rightarrow> Inl e
           | Inr (conv, corr) \<Rightarrow>
               (let g = (initial p)\<lparr>USE_CW := cw, USE_DW := dw, CONV := conv, CORR := corr\<rparr> in
                case check g of
                  Inl e \<Rightarrow> Inl e
                | Inr warnings \<Rightarrow> Inr (g, warnings))))"

section \<open>\<^verbatim>\<open>_meta\<close> (lines 232--264)\<close>

text \<open>
  \<^verbatim>\<open>
  def _meta(name, col_net=0, col_sta=1, col_lon=2, col_lat=3):
      with open(join(PARAM['dir']['project'], name), 'r') as f:
          for line in f:
              lst = line.split()
              key = lst[col_sta]
              STNM2LOLA[key] = [float(lst[col_lon]), float(lst[col_lat])]
              STA2NET[key] = lst[col_net]
              ALL_STATION.append(key)
      f_rec_st = join(PARAM['dir']['project'], PARAM['fstation']['receiver']['name'])
      RECEIVER_STATION = my.fio.rcol(f_rec_st, 0)[0]
      if PARAM['fstation']['receiver']['group']:
          RECEIVER_GROUP = my.fio.rcol(f_rec_st, 1)[0]
      else:
          RECEIVER_GROUP = None
      _f = join(PARAM['dir']['project'], PARAM['fstation']['source'])
      SOURCE_STATION = my.fio.rcol(_f, 0)[0]
  \<close>
  The world outside is \<open>env\<close>: the lines of a text file (\<open>None\<close> when it cannot be
  opened), what the external \<^verbatim>\<open>my.fio.rcol(f, c)[0]\<close> reads from a file, and \<^verbatim>\<open>float\<close>
  (\<open>None\<close> for its \<^verbatim>\<open>ValueError\<close>).  An exception ends the run, so the state it leaves
  behind is not kept.
\<close>

record 'f env =
  read_lines :: "string \<Rightarrow> string list option"
  rcol :: "string \<Rightarrow> nat \<Rightarrow> error + string list"
  to_float :: "string \<Rightarrow> 'f option"

definition not_a_float :: error where
  "not_a_float = ValueError ''could not convert string to float''"

definition meta_line ::
  "'f env \<Rightarrow> int \<Rightarrow> int \<Rightarrow> int \<Rightarrow> int \<Rightarrow> 'f globals \<Rightarrow> string \<Rightarrow> error + 'f globals" where
  "meta_line env col_net col_sta col_lon col_lat g line =
     (let lst = split line in
      case getitem lst col_sta of
        None \<Rightarrow> Inl IndexError
      | Some key \<Rightarrow>
      (case getitem lst col_lon of
        None \<Rightarrow> Inl IndexError
      | Some lon_s \<Rightarrow>
      (case to_float env lon_s of
        None \<Rightarrow> Inl not_a_float
      | Some lon \<Rightarrow>
      (case getitem lst col_lat of
        None \<Rightarrow> Inl IndexError
      | Some lat_s \<Rightarrow>
      (case to_float env lat_s of
        None \<Rightarrow> Inl not_a_float
      | Some lat \<Rightarrow>
      (case getitem lst col_net of
        None \<Rightarrow> Inl IndexError
      | Some net \<Rightarrow>
          Inr (g\<lparr>STNM2LOLA := (STNM2LOLA g)(key \<mapsto> [lon, lat]),
                 STA2NET := (STA2NET g)(key \<mapsto> net),
                 ALL_STATION := ALL_STATION g @ [key]\<rparr>)))))))"

fun meta_lines ::
  "'f env \<Rightarrow> int \<Rightarrow> int \<Rightarrow> int \<Rightarrow> int \<Rightarrow> 'f globals \<Rightarrow> string list \<Rightarrow> error + 'f globals" where
  "meta_lines env col_net col_sta col_lon col_lat g [] = Inr g"
| "meta_lines env col_net col_sta col_lon col_lat g (line # rest) =
     (case meta_line env col_net col_sta col_lon col_lat g line of
        Inl e \<Rightarrow> Inl e
      | Inr g' \<Rightarrow> meta_lines env col_net col_sta col_lon col_lat g' rest)"

definition meta ::
  "'f env \<Rightarrow> 'f globals \<Rightarrow> string \<Rightarrow> int \<Rightarrow> int \<Rightarrow> int \<Rightarrow> int \<Rightarrow> error + 'f globals" where
  "meta env g name col_net col_sta col_lon col_lat =
     (let p = PARAM g; fnm = join (dir_project p) [name] in
      case read_lines env fnm of
        None \<Rightarrow> Inl (FileNotFoundError fnm)
      | Some lines \<Rightarrow>
      (case meta_lines env col_net col_sta col_lon col_lat g lines of
        Inl e \<Rightarrow> Inl e
      | Inr g1 \<Rightarrow>
      (let f_rec_st = join (dir_project p) [fstation_receiver_name p] in
       case rcol env f_rec_st 0 of
        Inl e \<Rightarrow> Inl e
      | Inr receivers \<Rightarrow>
      (case (if fstation_receiver_group p then map_sum id Some (rcol env f_rec_st 1)
             else Inr None) of
        Inl e \<Rightarrow> Inl e
      | Inr groups \<Rightarrow>
      (case rcol env (join (dir_project p) [fstation_source p]) 0 of
        Inl e \<Rightarrow> Inl e
      | Inr sources \<Rightarrow>
          Inr (g1\<lparr>RECEIVER_STATION := receivers, RECEIVER_GROUP := groups,
                  SOURCE_STATION := sources\<rparr>))))))"

text \<open>
  What \<^verbatim>\<open>_meta\<close> reads from one line of the station file when none of its reads fails:
  the station id, the network code and the two coordinates.  The properties of \<open>meta\<close>
  are stated with it.
\<close>

definition line_fields ::
  "'f env \<Rightarrow> int \<Rightarrow> int \<Rightarrow> int \<Rightarrow> int \<Rightarrow> string \<Rightarrow> (string \<times> string \<times> 'f list) option" where
  "line_fields env col_net col_sta col_lon col_lat line =
     (let lst = split line in
      case (getitem lst col_sta, getitem lst col_net,
            Option.bind (getitem lst col_lon) (to_float env),
            Option.bind (getitem lst col_lat) (to_float env)) of
        (Some key, Some net, Some lon, Some lat) \<Rightarrow> Some (key, net, [lon, lat])
      | _ \<Rightarrow> None)"

text \<open>The two association-list entries that such a line gives.\<close>

definition net_of :: "string \<times> string \<times> 'f list \<Rightarrow> string \<times> string" where
  "net_of r = (fst r, fst (snd r))"

definition lola_of :: "string \<times> string \<times> 'f list \<Rightarrow> string \<times> 'f list" where
  "lola_of r = (fst r, snd (snd r))"

section \<open>Example configuration\<close>

text \<open>A small project, used where a theorem is evaluated on concrete data.\<close>

definition demo_param :: param where
  "demo_param =
     \<lparr>dir_project = ''proj'', dir_out = ''out'', dir_meta = ''meta'', dir_I2 = ''I2'',
      dir_I3 = ''I3'', dir_I3_rand = ''I3_rand'', sfx_I2 = ''_I2.lst'', sfx_source = ''_src.lst'',
      write_lag = True, misc_wavetype = ''Coda'', interferometry_operator = ''corr'',
      interferometry_type = None, interferometry_nlag = 2, interferometry_flip_nlag = True,
      interferometry_spz = False, interferometry_Welch = False,
      fstation_receiver_name = ''rec.lst'', fstation_receiver_group = False,
      fstation_source = ''src.lst''\<rparr>"

definition demo_globals :: "string globals" where
  "demo_globals = (initial demo_param)\<lparr>ALL_STATION := [''STA1'', ''STA2'', ''STA3'']\<rparr>"

definition demo_env :: "string env" where
  "demo_env =
     \<lparr>read_lines = (\<lambda>f. if f = ''proj/sta.lst''
                          then Some [''N1 STA1 100.5 30.25'', ''N2 STA2 101.0 31.0'',
                                     ''N9 STA1 102.5 32.5'']
                          else if f = ''proj/two.lst''
                          then Some [''N1 STA1 100.5 30.25'', ''N2 STA2 101.0 31.0'']
                          else None),
      rcol = (\<lambda>f c. if f = ''proj/rec.lst'' \<and> c = 0 then Inr [''STA1'', ''STA2'']
                     else if f = ''proj/src.lst'' \<and> c = 0 then Inr [''STA2'']
                     else Inl (FileNotFoundError f)),
      to_float = Some\<rparr>"

definition demo_table :: "(string \<times> string list \<times> string list) list" where
  "demo_table =
     [(''NETA_S1_NETB_S2'', ([''5.0'', ''10.0''], [''3.1'', ''3.4''])),
      (''NETB_S2_NETA_S1'', ([''6.0''], [''3.9''])),
      (''NETA_S1_NETC_S3'', ([''7.0''], [''2.9'']))]"

section \<open>Properties of the station ordering\<close>

lemma list_index_None_iff: "list_index xs x = None \<longleftrightarrow> x \<notin> set xs"
  by (induction xs) auto

lemma list_index_Some_iff:
  "list_index xs x = Some i \<longleftrightarrow> i < length xs \<and> xs ! i = x \<and> (\<forall>k<i. xs ! k \<noteq> x)"
proof (induction xs arbitrary: i)
  case Nil
  then show ?case by simp
next
  case (Cons y ys)
  show ?case
  proof (cases "y = x")
    case True
    then show ?thesis by (cases i) auto
  next
    case False
    show ?thesis
    proof (cases i)
      case 0
      with False show ?thesis by auto
    next
      case (Suc n)
      have "(\<forall>k<Suc n. (y # ys) ! k \<noteq> x) \<longleftrightarrow> (\<forall>k<n. ys ! k \<noteq> x)"
        using False by (auto simp: less_Suc_eq_0_disj)
      with Suc False Cons.IH [of n] show ?thesis by auto
    qed
  qed
qed

lemma list_index_inj:
  assumes "list_index xs a = Some i" "list_index xs b = Some i"
  shows "a = b"
  using assms by (auto simp: list_index_Some_iff)

text \<open>
  C2.  For stations \<open>st1\<close>, \<open>st2\<close> that occur in \<open>lst\<close>, with \<open>i\<close> and \<open>j\<close> their (first)
  positions, \<open>get_order\<close> returns \<open>(st1, st2)\<close> when \<open>i \<le> j\<close> and \<open>(st2, st1)\<close> otherwise, so
  the result does not depend on the order of the two arguments; when either station does
  not occur in \<open>lst\<close> the call fails with the \<^verbatim>\<open>ValueError\<close> of \<^verbatim>\<open>list.index\<close> (the
  specification's \<^verbatim>\<open>NotFoundError\<close>).
\<close>

theorem get_order_canonical:
  "(\<forall>i j. i < length lst \<and> lst ! i = st1 \<and> (\<forall>k<i. lst ! k \<noteq> st1) \<and>
          j < length lst \<and> lst ! j = st2 \<and> (\<forall>k<j. lst ! k \<noteq> st2) \<longrightarrow>
       get_order lst st1 st2 = Inr (if i \<le> j then (st1, st2) else (st2, st1))) \<and>
   (st1 \<in> set lst \<and> st2 \<in> set lst \<longrightarrow>
       get_order lst st1 st2 = get_order lst st2 st1 \<and>
       (\<exists>i j. list_index lst st1 = Some i \<and> list_index lst st2 = Some j)) \<and>
   (st1 \<notin> set lst \<or> st2 \<notin> set lst \<longrightarrow> get_order lst st1 st2 = Inl not_in_list)"
proof (intro conjI allI impI)
  fix i j
  assume h: "i < length lst \<and> lst ! i = st1 \<and> (\<forall>k<i. lst ! k \<noteq> st1) \<and>
          j < length lst \<and> lst ! j = st2 \<and> (\<forall>k<j. lst ! k \<noteq> st2)"
  then have "list_index lst st1 = Some i" "list_index lst st2 = Some j"
    by (simp_all add: list_index_Some_iff)
  then show "get_order lst st1 st2 = Inr (if i \<le> j then (st1, st2) else (st2, st1))"
    by (simp add: get_order_def)
next
  assume h: "st1 \<in> set lst \<and> st2 \<in> set lst"
  then obtain i j where ij: "list_index lst st1 = Some i" "list_index lst st2 = Some j"
    using list_index_None_iff [of lst st1] list_index_None_iff [of lst st2] by auto
  then show "\<exists>i j. list_index lst st1 = Some i \<and> list_index lst st2 = Some j"
    by blast
  show "get_order lst st1 st2 = get_order lst st2 st1"
  proof (cases "i = j")
    case True
    with ij have "st1 = st2" by (auto dest: list_index_inj)
    then show ?thesis by simp
  next
    case False
    with ij show ?thesis by (auto simp: get_order_def)
  qed
next
  assume "st1 \<notin> set lst \<or> st2 \<notin> set lst"
  then have "list_index lst st1 = None \<or> list_index lst st2 = None"
    by (simp add: list_index_None_iff)
  then show "get_order lst st1 st2 = Inl not_in_list"
    by (auto simp: get_order_def split: option.splits)
qed

theorem get_order_canonical_witness:
  "get_order [''S1'', ''S2'', ''S3''] ''S3'' ''S2'' = Inr (''S2'', ''S3'') \<and>
   get_order [''S1'', ''S2'', ''S3''] ''S3'' ''S2'' = get_order [''S1'', ''S2'', ''S3''] ''S2'' ''S3'' \<and>
   get_order [''S1'', ''S2'', ''S3''] ''S3'' ''S9'' = Inl not_in_list"
  using get_order_canonical [of "[''S1'', ''S2'', ''S3'']" "''S3''" "''S2''"]
    get_order_canonical [of "[''S1'', ''S2'', ''S3'']" "''S3''" "''S9''"]
  by (simp add: get_order_def)

section \<open>Properties of \<open>group_sta\<close>\<close>


lemma group_loop_ok:
  "k + length lst \<le> length lnum \<Longrightarrow>
   group_loop n0 lnum k lst g0 g1 =
     Inr (g0 @ map fst (filter (\<lambda>(s, l). l = n0) (zip lst (drop k lnum))),
          g1 @ map fst (filter (\<lambda>(s, l). l \<noteq> n0) (zip lst (drop k lnum))))"
proof (induction lst arbitrary: k g0 g1)
  case Nil
  then show ?case by simp
next
  case (Cons st rest)
  then have k: "k < length lnum" and rest: "Suc k + length rest \<le> length lnum" by simp_all
  from k have d: "drop k lnum = lnum ! k # drop (Suc k) lnum"
    by (simp add: Cons_nth_drop_Suc)
  show ?case
    using k Cons.IH [OF rest] by (simp add: d)
qed

lemma group_loop_short:
  "k \<le> length lnum \<Longrightarrow> length lnum < k + length lst \<Longrightarrow>
   group_loop n0 lnum k lst g0 g1 = Inl IndexError"
proof (induction lst arbitrary: k g0 g1)
  case Nil
  then show ?case by simp
next
  case (Cons st rest)
  show ?case
  proof (cases "k < length lnum")
    case True
    with Cons.prems have "Suc k \<le> length lnum" "length lnum < Suc k + length rest" by simp_all
    from Cons.IH [OF this] True show ?thesis by simp
  next
    case False
    then show ?thesis by simp
  qed
qed

lemma subseq_zip_filter: "subseq (map fst (filter P (zip xs ys))) xs"
proof -
  have "subseq (map fst (filter P (zip xs ys))) (map fst (zip xs ys))"
    by (intro subseq_map subseq_filter_left)
  moreover have "map fst (zip xs ys) = take (min (length xs) (length ys)) xs"
    by (simp add: map_fst_zip_take)
  moreover have "subseq (take (min (length xs) (length ys)) xs) xs"
    by (intro prefix_imp_subseq take_is_prefix)
  ultimately show ?thesis
    by (metis subseq_order.order_trans)
qed

lemma mset_zip_partition:
  assumes "length xs \<le> length ys"
  shows "mset (map fst (filter P (zip xs ys))) + mset (map fst (filter (\<lambda>z. \<not> P z) (zip xs ys))) = mset xs"
proof -
  have "mset (map fst (filter P (zip xs ys))) + mset (map fst (filter (\<lambda>z. \<not> P z) (zip xs ys)))
      = image_mset fst (filter_mset P (mset (zip xs ys)) + filter_mset (\<lambda>z. \<not> P z) (mset (zip xs ys)))"
    by (simp only: mset_map mset_filter image_mset_union)
  also have "\<dots> = image_mset fst (mset (zip xs ys))"
    by (rule arg_cong [where f = "image_mset fst"]) (rule multiset_partition [symmetric])
  also have "\<dots> = mset (map fst (zip xs ys))" by simp
  also have "map fst (zip xs ys) = xs"
    using assms by (simp add: map_fst_zip_take)
  finally show ?thesis .
qed

lemma disjoint_zip_partition:
  assumes "distinct xs"
  shows "set (map fst (filter P (zip xs ys))) \<inter> set (map fst (filter (\<lambda>z. \<not> P z) (zip xs ys))) = {}"
proof -
  have d: "distinct (map fst (zip xs ys))"
    using assms by (simp add: map_fst_zip_take)
  { fix x l l'
    assume "(x, l) \<in> set (zip xs ys)" "(x, l') \<in> set (zip xs ys)"
    with d have "l = l'" by (rule eq_key_imp_eq_value) }
  then show ?thesis by fastforce
qed


text \<open>
  C4 (as amended).  Let \<open>set_order\<close> list each distinct label of \<open>lnum\<close> once.  Then
  \<open>group_sta\<close> fails with \<^verbatim>\<open>ValueError('# of group != 2.')\<close> (the specification's
  \<^verbatim>\<open>InvalidGroupCountError\<close>) exactly when the number of distinct labels is not 2.  With
  exactly two distinct labels \<open>a\<close> (the one listed first) and \<open>b\<close>, and at least one
  label for every station, it returns the stations labelled \<open>a\<close> and the stations
  labelled \<open>b\<close>, each in input order; together the two lists hold the stations of the
  input with their multiplicities, and they have no station in common when the input has
  no repeated station.  With two distinct labels and fewer labels than stations it raises
  \<^verbatim>\<open>IndexError\<close>.
\<close>

theorem group_sta_partition:
  assumes ord: "distinct (set_order lnum) \<and> set (set_order lnum) = set lnum"
  shows
   "((group_sta set_order lst lnum = Inl (ValueError ''# of group != 2.'')) \<longleftrightarrow> card (set lnum) \<noteq> 2) \<and>
    (card (set lnum) = 2 \<and> length lst \<le> length lnum \<longrightarrow>
       (\<exists>a b g0 g1. a \<noteq> b \<and> set lnum = {a, b} \<and> a = set_order lnum ! 0 \<and>
          group_sta set_order lst lnum = Inr (g0, g1) \<and>
          g0 = map fst (filter (\<lambda>(s, l). l = a) (zip lst lnum)) \<and>
          g1 = map fst (filter (\<lambda>(s, l). l = b) (zip lst lnum)) \<and>
          mset g0 + mset g1 = mset lst \<and> subseq g0 lst \<and> subseq g1 lst \<and>
          (distinct lst \<longrightarrow> set g0 \<inter> set g1 = {}))) \<and>
    (card (set lnum) = 2 \<and> length lnum < length lst \<longrightarrow>
       group_sta set_order lst lnum = Inl IndexError)"
proof -
  let ?num = "set_order lnum"
  from ord have len: "length ?num = card (set lnum)"
    using distinct_card [of ?num] by simp
  have A: "(group_sta set_order lst lnum = Inl (ValueError ''# of group != 2.'')) \<longleftrightarrow> card (set lnum) \<noteq> 2"
  proof (cases "length ?num = 2")
    case False
    with len show ?thesis by (simp add: group_sta_def)
  next
    case True
    have "group_loop (?num ! 0) lnum 0 lst [] [] \<noteq> Inl (ValueError ''# of group != 2.'')"
    proof (cases "length lst \<le> length lnum")
      case True
      then show ?thesis by (simp add: group_loop_ok)
    next
      case False
      then show ?thesis by (simp add: group_loop_short)
    qed
    with True len show ?thesis by (simp add: group_sta_def)
  qed
  have B: "\<exists>a b g0 g1. a \<noteq> b \<and> set lnum = {a, b} \<and> a = ?num ! 0 \<and>
          group_sta set_order lst lnum = Inr (g0, g1) \<and>
          g0 = map fst (filter (\<lambda>(s, l). l = a) (zip lst lnum)) \<and>
          g1 = map fst (filter (\<lambda>(s, l). l = b) (zip lst lnum)) \<and>
          mset g0 + mset g1 = mset lst \<and> subseq g0 lst \<and> subseq g1 lst \<and>
          (distinct lst \<longrightarrow> set g0 \<inter> set g1 = {})"
    if c: "card (set lnum) = 2" and l: "length lst \<le> length lnum"
  proof -
    from c len have len2: "length ?num = 2" by simp
    then obtain a b where num: "?num = [a, b]"
      by (cases ?num; cases "tl ?num") auto
    with ord have ab: "a \<noteq> b" and s: "set lnum = {a, b}" by auto
    let ?P = "\<lambda>(s, l). l = a"
    let ?g0 = "map fst (filter ?P (zip lst lnum))"
    let ?g1 = "map fst (filter (\<lambda>z. \<not> ?P z) (zip lst lnum))"
    have run: "group_sta set_order lst lnum = Inr (?g0, ?g1)"
      using l len2 num by (simp add: group_sta_def group_loop_ok case_prod_unfold)
    have "filter (\<lambda>z. \<not> ?P z) (zip lst lnum) = filter (\<lambda>(s, l). l = b) (zip lst lnum)"
    proof (rule filter_cong [OF refl])
      fix z assume "z \<in> set (zip lst lnum)"
      then have "snd z \<in> set lnum"
        using set_zip_rightD [of "fst z" "snd z" lst lnum] by simp
      with s ab show "(\<not> ?P z) = (case z of (s, l) \<Rightarrow> l = b)" by (cases z) auto
    qed
    then have g1: "?g1 = map fst (filter (\<lambda>(s, l). l = b) (zip lst lnum))" by simp
    have m: "mset ?g0 + mset ?g1 = mset lst" using l by (rule mset_zip_partition)
    have d: "distinct lst \<longrightarrow> set ?g0 \<inter> set ?g1 = {}"
      using disjoint_zip_partition [of lst ?P lnum] by blast
    have "a = ?num ! 0" using num by simp
    with ab s run g1 m d subseq_zip_filter [of ?P lst lnum]
      subseq_zip_filter [of "\<lambda>z. \<not> ?P z" lst lnum]
    show ?thesis by blast
  qed
  have C: "group_sta set_order lst lnum = Inl IndexError"
    if "card (set lnum) = 2" and "length lnum < length lst"
    using that len by (simp add: group_sta_def group_loop_short)
  from A B C show ?thesis by blast
qed

theorem group_sta_partition_witness:
  "group_sta remdups [''A'', ''B'', ''C'', ''D''] [1, 2, 2, 1 :: int] = Inr ([''B'', ''C''], [''A'', ''D'']) \<and>
   group_sta remdups [''A'', ''B'', ''C''] [1, 2, 3 :: int] = Inl (ValueError ''# of group != 2.'') \<and>
   group_sta remdups [''A'', ''B'', ''C''] [2, 1 :: int] = Inl IndexError"
  using group_sta_partition [of remdups "[1, 2, 2, 1 :: int]" "[''A'', ''B'', ''C'', ''D'']"]
    group_sta_partition [of remdups "[1, 2, 3 :: int]" "[''A'', ''B'', ''C'']"]
    group_sta_partition [of remdups "[2, 1 :: int]" "[''A'', ''B'', ''C'']"]
  by (simp add: group_sta_def)

text \<open>
  The statement without the two conditions fails: with three stations and the two labels
  \<open>1, 2\<close> the call raises \<^verbatim>\<open>IndexError\<close> instead of returning two lists, and a station
  listed twice under different labels is in both groups.
\<close>

theorem group_sta_returns_counterexample:
  "group_sta remdups [''A'', ''B'', ''C''] [1, 2 :: int] = Inl IndexError \<and>
   group_sta remdups [''A'', ''A''] [1, 2 :: int] = Inr ([''A''], [''A''])"
  by (simp add: group_sta_def)

section \<open>Properties of \<open>get_pred_pv\<close>\<close>

text \<open>
  C3.  Called without an explicit pair key, \<open>get_pred_pv\<close> returns the global curve
  \<open>(PHPRPER, PHPRVEL)\<close> when the pair table is absent or empty.  Otherwise, with the
  forward key \<^verbatim>\<open>n1_s1_n2_s2\<close> and the reversed key \<^verbatim>\<open>n2_s2_n1_s1\<close>: a curve stored under
  the forward key is returned, whatever the reversed key holds (forward wins); a curve
  stored under the reversed key is returned when the forward key is missing, so the
  query in the other direction finds a curve stored in one direction only; and the
  global curve is returned when neither key is in the table.
\<close>

theorem get_pred_pv_lookup:
  "(PRED_PV g = None \<or> PRED_PV g = Some [] \<longrightarrow>
      get_pred_pv g n1 s1 n2 s2 None pr = (PHPRPER g, PHPRVEL g)) \<and>
   (\<forall>tbl fwd rvs. PRED_PV g = Some tbl \<and> tbl \<noteq> [] \<and>
        fwd = n1 @ ''_'' @ s1 @ ''_'' @ n2 @ ''_'' @ s2 \<and>
        rvs = n2 @ ''_'' @ s2 @ ''_'' @ n1 @ ''_'' @ s1 \<longrightarrow>
      (\<forall>c. map_of tbl fwd = Some c \<longrightarrow> get_pred_pv g n1 s1 n2 s2 None pr = c) \<and>
      (\<forall>c. map_of tbl fwd = None \<and> map_of tbl rvs = Some c \<longrightarrow>
           get_pred_pv g n1 s1 n2 s2 None pr = c) \<and>
      (\<forall>c. map_of tbl fwd = Some c \<and> map_of tbl rvs = None \<longrightarrow>
           get_pred_pv g n2 s2 n1 s1 None pr = c) \<and>
      (map_of tbl fwd = None \<and> map_of tbl rvs = None \<longrightarrow>
           get_pred_pv g n1 s1 n2 s2 None pr = (PHPRPER g, PHPRVEL g)))"
  by (auto simp: get_pred_pv_def)

theorem get_pred_pv_lookup_witness:
  "get_pred_pv (demo_globals\<lparr>PHPRPER := [''1.0''], PHPRVEL := [''3.0'']\<rparr>)
     ''NETA'' ''S1'' ''NETB'' ''S2'' None None = ([''1.0''], [''3.0'']) \<and>
   get_pred_pv (demo_globals\<lparr>PRED_PV := Some demo_table\<rparr>)
     ''NETA'' ''S1'' ''NETB'' ''S2'' None None = ([''5.0'', ''10.0''], [''3.1'', ''3.4'']) \<and>
   get_pred_pv (demo_globals\<lparr>PRED_PV := Some demo_table\<rparr>)
     ''NETC'' ''S3'' ''NETA'' ''S1'' None None = ([''7.0''], [''2.9'']) \<and>
   get_pred_pv (demo_globals\<lparr>PRED_PV := Some demo_table, PHPRPER := [''1.0''], PHPRVEL := [''3.0'']\<rparr>)
     ''NETC'' ''S3'' ''NETB'' ''S2'' None None = ([''1.0''], [''3.0''])"
  using get_pred_pv_lookup [of "demo_globals\<lparr>PHPRPER := [''1.0''], PHPRVEL := [''3.0'']\<rparr>"
      "''NETA''" "''S1''" "''NETB''" "''S2''" None]
    get_pred_pv_lookup [of "demo_globals\<lparr>PRED_PV := Some demo_table\<rparr>"
      "''NETA''" "''S1''" "''NETB''" "''S2''" None]
    get_pred_pv_lookup [of "demo_globals\<lparr>PRED_PV := Some demo_table\<rparr>"
      "''NETA''" "''S1''" "''NETC''" "''S3''" None]
    get_pred_pv_lookup [of
      "demo_globals\<lparr>PRED_PV := Some demo_table, PHPRPER := [''1.0''], PHPRVEL := [''3.0'']\<rparr>"
      "''NETC''" "''S3''" "''NETB''" "''S2''" None]
  by (simp add: demo_globals_def initial_def demo_table_def)

section \<open>Properties of the parameter check\<close>

lemma wavetype_flags_cases:
  "wavetype_flags p = Inr (cw, dw) \<Longrightarrow> (cw \<and> \<not> dw) \<or> (\<not> cw \<and> dw)"
  by (auto simp: wavetype_flags_def split: if_splits)

lemma wavetype_flags_unknown:
  "lower (misc_wavetype p) \<notin> set [''cw'', ''coda'', ''coda wave'', ''coda-wave''] \<Longrightarrow>
   lower (misc_wavetype p) \<notin> set [''dw'', ''direct wave'', ''direct-wave''] \<Longrightarrow>
   wavetype_flags p = Inl (ValueError (''Unknown type of signal '' @ misc_wavetype p))"
  by (simp add: wavetype_flags_def)

text \<open>
  C6.  The module sets \<open>USE_CW\<close> for a coda wave type and \<open>USE_DW\<close> (with \<open>USE_CW\<close> off)
  for a direct one (\<open>wavetype_flags_cases\<close>).  \<open>_check\<close> fails with \<^verbatim>\<open>ValueError\<close> when
  the wave type is coda and convolution is selected, and when the wave type is direct and
  Welch's method is on; it fails when the lag count is 4 and the flip option is off, with
  \<^verbatim>\<open>NotImplementedError\<close> unless one of the first two rules already failed.  When none of
  the three rules is violated it passes, and coda with the stationary phase zone only
  logs a warning.  The last two parts say the same of the module's start, from the
  wave-type and operator strings.
\<close>

theorem check_rules:
  "(USE_CW g \<and> CONV g \<longrightarrow> check g = Inl (ValueError ''NO convolution of coda'')) \<and>
   (\<not> USE_CW g \<and> USE_DW g \<and> interferometry_Welch (PARAM g) \<longrightarrow>
      check g = Inl (ValueError ''NOT use Welch's method for direct-wave'')) \<and>
   (interferometry_nlag (PARAM g) = 4 \<and> \<not> interferometry_flip_nlag (PARAM g) \<longrightarrow>
      (\<exists>e. check g = Inl e) \<and>
      (\<not> (USE_CW g \<and> CONV g) \<and>
       \<not> (\<not> USE_CW g \<and> USE_DW g \<and> interferometry_Welch (PARAM g)) \<longrightarrow>
         check g = Inl (NotImplementedError ''4 lags MUST use the symmetric component''))) \<and>
   (\<not> (USE_CW g \<and> CONV g) \<and>
    \<not> (\<not> USE_CW g \<and> USE_DW g \<and> interferometry_Welch (PARAM g)) \<and>
    \<not> (interferometry_nlag (PARAM g) = 4 \<and> \<not> interferometry_flip_nlag (PARAM g)) \<longrightarrow>
      check g =
        Inr (if USE_CW g \<and> interferometry_spz (PARAM g)
             then [''Using stationary phase zone for coda''] else [])) \<and>
   (\<forall>p. lower (misc_wavetype p) \<in> set [''cw'', ''coda'', ''coda wave'', ''coda-wave''] \<and>
        lower (interferometry_operator p) \<in> set [''conv'', ''convolution''] \<longrightarrow>
        (configure p :: error + ('a globals \<times> string list)) =
          Inl (ValueError ''NO convolution of coda'')) \<and>
   (\<forall>p. lower (misc_wavetype p) \<in> set [''dw'', ''direct wave'', ''direct-wave''] \<and>
        lower (interferometry_operator p) \<in> set [''conv'', ''convolution'', ''corr'', ''correlation''] \<and>
        interferometry_Welch p \<longrightarrow>
        (configure p :: error + ('a globals \<times> string list)) =
          Inl (ValueError ''NOT use Welch's method for direct-wave''))"
proof (intro conjI)
  show "\<forall>p. lower (misc_wavetype p) \<in> set [''cw'', ''coda'', ''coda wave'', ''coda-wave''] \<and>
        lower (interferometry_operator p) \<in> set [''conv'', ''convolution''] \<longrightarrow>
        (configure p :: error + ('a globals \<times> string list)) =
          Inl (ValueError ''NO convolution of coda'')"
    by (simp add: configure_def wavetype_flags_def operator_flags_def check_def initial_def)
  show "\<forall>p. lower (misc_wavetype p) \<in> set [''dw'', ''direct wave'', ''direct-wave''] \<and>
        lower (interferometry_operator p) \<in> set [''conv'', ''convolution'', ''corr'', ''correlation''] \<and>
        interferometry_Welch p \<longrightarrow>
        (configure p :: error + ('a globals \<times> string list)) =
          Inl (ValueError ''NOT use Welch's method for direct-wave'')"
    by (auto simp: configure_def wavetype_flags_def operator_flags_def check_def initial_def)
qed (auto simp: check_def Let_def)

theorem check_rules_witness:
  "check ((initial demo_param :: string globals)\<lparr>USE_CW := True, CONV := True\<rparr>) =
     Inl (ValueError ''NO convolution of coda'') \<and>
   check ((initial (demo_param\<lparr>interferometry_Welch := True\<rparr>) :: string globals)\<lparr>USE_DW := True\<rparr>) =
     Inl (ValueError ''NOT use Welch's method for direct-wave'') \<and>
   check (initial (demo_param\<lparr>interferometry_nlag := 4, interferometry_flip_nlag := False\<rparr>)
            :: string globals) =
     Inl (NotImplementedError ''4 lags MUST use the symmetric component'') \<and>
   check ((initial (demo_param\<lparr>interferometry_spz := True\<rparr>) :: string globals)\<lparr>USE_CW := True\<rparr>) =
     Inr [''Using stationary phase zone for coda''] \<and>
   (configure (demo_param\<lparr>interferometry_operator := ''Convolution''\<rparr>)
      :: error + (string globals \<times> string list)) = Inl (ValueError ''NO convolution of coda'')"
proof -
  let ?p = "demo_param\<lparr>interferometry_operator := ''Convolution''\<rparr>"
  have "lower (misc_wavetype ?p) \<in> set [''cw'', ''coda'', ''coda wave'', ''coda-wave''] \<and>
        lower (interferometry_operator ?p) \<in> set [''conv'', ''convolution'']"
    by (simp add: demo_param_def lower_def lower_char_def ascii_uppercase_def
        ascii_lowercase_def)
  with check_rules [of "initial demo_param :: string globals"]
  have "(configure ?p :: error + (string globals \<times> string list)) =
          Inl (ValueError ''NO convolution of coda'')"
    by blast
  moreover have
   "check ((initial demo_param :: string globals)\<lparr>USE_CW := True, CONV := True\<rparr>) =
      Inl (ValueError ''NO convolution of coda'')"
    using check_rules [of "(initial demo_param :: string globals)\<lparr>USE_CW := True, CONV := True\<rparr>"]
    by auto
  moreover have
   "check ((initial (demo_param\<lparr>interferometry_Welch := True\<rparr>) :: string globals)\<lparr>USE_DW := True\<rparr>) =
      Inl (ValueError ''NOT use Welch's method for direct-wave'')"
    using check_rules [of "(initial (demo_param\<lparr>interferometry_Welch := True\<rparr>) :: string globals)\<lparr>USE_DW := True\<rparr>"]
    by (auto simp: initial_def demo_param_def)
  moreover have
   "check (initial (demo_param\<lparr>interferometry_nlag := 4, interferometry_flip_nlag := False\<rparr>)
            :: string globals) =
      Inl (NotImplementedError ''4 lags MUST use the symmetric component'')"
    using check_rules [of "initial (demo_param\<lparr>interferometry_nlag := 4, interferometry_flip_nlag := False\<rparr>) :: string globals"]
    by (auto simp: initial_def demo_param_def)
  moreover have
   "check ((initial (demo_param\<lparr>interferometry_spz := True\<rparr>) :: string globals)\<lparr>USE_CW := True\<rparr>) =
      Inr [''Using stationary phase zone for coda'']"
    using check_rules [of "(initial (demo_param\<lparr>interferometry_spz := True\<rparr>) :: string globals)\<lparr>USE_CW := True\<rparr>"]
    by (auto simp: initial_def demo_param_def)
  ultimately show ?thesis by blast
qed

section \<open>Properties of \<open>get_fnm\<close>\<close>

lemma list_index_map_Some: "list_index (map Some xs) (Some a) = list_index xs a"
  by (induction xs) auto

lemma get_order_Some:
  assumes "a \<in> set xs" "b \<in> set xs"
  shows "\<exists>s r. get_order (map Some xs) (Some a) (Some b) = Inr (Some s, Some r) \<and>
           get_order (map Some xs) (Some b) (Some a) = Inr (Some s, Some r)"
proof -
  from assms obtain i j where ij: "list_index xs a = Some i" "list_index xs b = Some j"
    using list_index_None_iff [of xs a] list_index_None_iff [of xs b] by auto
  show ?thesis
  proof (cases "i = j")
    case True
    with ij have "a = b" by (auto dest: list_index_inj)
    with ij show ?thesis by (simp add: get_order_def list_index_map_Some)
  next
    case False
    with ij show ?thesis by (auto simp: get_order_def list_index_map_Some)
  qed
qed

lemma join_snoc: "join a (ps @ [b]) = join2 (join a ps) b"
  by (simp add: join_def)

lemma join2_suffix: "suffix b (join2 path b)"
  by (auto simp: join2_def suffix_def)

lemma case_tables_distinct: "distinct (ascii_lowercase @ ascii_uppercase)"
  by (simp add: ascii_lowercase_def ascii_uppercase_def)

lemma upper_char_idem: "upper_char (upper_char c) = upper_char c"
proof (cases "map_of (zip ascii_lowercase ascii_uppercase) c")
  case None
  then show ?thesis by (simp add: upper_char_def)
next
  case (Some u)
  then have "(c, u) \<in> set (zip ascii_lowercase ascii_uppercase)"
    by (rule map_of_SomeD)
  then have "u \<in> set ascii_uppercase"
    by (rule set_zip_rightD)
  with case_tables_distinct have "u \<notin> set ascii_lowercase"
    by auto
  then have "u \<notin> fst ` set (zip ascii_lowercase ascii_uppercase)"
    by (auto dest: set_zip_leftD)
  then have "map_of (zip ascii_lowercase ascii_uppercase) u = None"
    by (simp add: map_of_eq_None_iff)
  with Some show ?thesis by (simp add: upper_char_def)
qed

lemma upper_idem: "upper (upper s) = upper s"
  by (simp add: upper_def upper_char_idem)

lemma get_fnm_upper_cong:
  assumes "upper kind = upper kind'"
  shows "get_fnm g kind sta1 sta2 sta3 lags pre I2 = get_fnm g kind' sta1 sta2 sta3 lags pre I2"
  unfolding get_fnm_def Let_def assms ..

text \<open>The part of \<open>get_fnm\<close> after the station pair is ordered.\<close>

lemma get_fnm_ordered:
  assumes "upper kind \<noteq> ''I2_PATH''" "upper kind \<noteq> ''SOURCE''" "upper kind \<noteq> ''SOURCE-STATION''"
    and "get_order (map Some (ALL_STATION g)) sta1
           (case I2 of None \<Rightarrow> sta2 | Some i2 \<Rightarrow> Some (basename (dirname i2))) =
         Inr (Some src, Some rcv)"
  shows "get_fnm g kind sta1 sta2 sta3 lags pre I2 =
     (if upper kind = ''I2'' then
        Inr (Path (join (dir_project (PARAM g))
              [dir_I2 (PARAM g), src, ''COR_'' @ src @ ''_'' @ rcv @ ''.SAC'']), [])
      else if upper kind = ''I2_LAG_PROC'' then
        Inr (Path (join (DIROUT g)
              [src, str pre @ ''_COR_'' @ src @ ''_'' @ rcv @ ''.SAC'']), [])
      else if upper kind = ''C3'' then
        Inr (Path (join (DIROUT g)
              [src, rcv, str sta3 @ ''_'' @ str lags @ ''_'' @ src @ ''_'' @ rcv @ ''.SAC'']), [])
      else if upper kind = ''I3'' then
        Inr (Path (join (DIROUT g)
              [dir_I3 (PARAM g), src, ''I3_'' @ src @ ''_'' @ rcv @ ''.SAC'']), [])
      else if upper kind = ''I3_RAND'' then
        Inr (Path (join (DIROUT g)
              [dir_I3_rand (PARAM g), src, rcv, ''I3_'' @ src @ ''_'' @ rcv @ ''.SAC'']), [])
      else if upper kind = ''I2_LAG_RAW'' then
        Inr (if interferometry_nlag (PARAM g) = 2
             then Paths [join (join (DIROUT g) [src]) [''P_'' @ str (map_option basename I2)],
                         join (join (DIROUT g) [src]) [''N_'' @ str (map_option basename I2)]]
             else Paths [join (join (DIROUT g) [src]) [''S_'' @ str (map_option basename I2)]],
             if write_lag (PARAM g) then [join (DIROUT g) [src]] else [])
      else Inl (ValueError (''Unknow kind of file: '' @ upper kind @ ''.'')))"
  using assms by (cases I2) (simp_all add: get_fnm_def Let_def)

text \<open>
  C1 (as amended).  When no I2 path is passed (\<open>I2 = None\<close>) and \<open>a\<close>, \<open>b\<close> are in
  \<^verbatim>\<open>ALL_STATION\<close>, \<open>get_fnm\<close> returns the same for \<open>(sta1, sta2) = (a, b)\<close> and for
  \<open>(b, a)\<close>, all other arguments held fixed, and for each of the six kinds that use the
  station pair that result is a path (or a list of paths), not an error.  For kind
  \<^verbatim>\<open>I2\<close>, when \<open>a\<close> comes before \<open>b\<close> in \<^verbatim>\<open>ALL_STATION\<close>, the path returned for either
  order of the arguments ends with \<^verbatim>\<open>COR_a_b.SAC\<close>, so it contains \<^verbatim>\<open>COR_a_b\<close>.
\<close>

theorem get_fnm_pair_symmetric:
  "a \<in> set (ALL_STATION g) \<and> b \<in> set (ALL_STATION g) \<longrightarrow>
     get_fnm g kind (Some a) (Some b) sta3 lags pre None =
       get_fnm g kind (Some b) (Some a) sta3 lags pre None \<and>
     (upper kind \<in> set [''I2'', ''I2_LAG_PROC'', ''C3'', ''I3'', ''I3_RAND'', ''I2_LAG_RAW''] \<longrightarrow>
        (\<exists>r made. get_fnm g kind (Some a) (Some b) sta3 lags pre None = Inr (r, made))) \<and>
     (\<forall>i j. upper kind = ''I2'' \<and> list_index (ALL_STATION g) a = Some i \<and>
            list_index (ALL_STATION g) b = Some j \<and> i < j \<longrightarrow>
        (\<exists>path. get_fnm g kind (Some b) (Some a) sta3 lags pre None = Inr (Path path, []) \<and>
                get_fnm g kind (Some a) (Some b) sta3 lags pre None = Inr (Path path, []) \<and>
                path = join (dir_project (PARAM g))
                         [dir_I2 (PARAM g), a, ''COR_'' @ a @ ''_'' @ b @ ''.SAC''] \<and>
                suffix (''COR_'' @ a @ ''_'' @ b @ ''.SAC'') path \<and>
                sublist (''COR_'' @ a @ ''_'' @ b) path))"
proof (intro impI)
  assume ab: "a \<in> set (ALL_STATION g) \<and> b \<in> set (ALL_STATION g)"
  then obtain s r where
    o1: "get_order (map Some (ALL_STATION g)) (Some a) (Some b) = Inr (Some s, Some r)" and
    o2: "get_order (map Some (ALL_STATION g)) (Some b) (Some a) = Inr (Some s, Some r)"
    using get_order_Some [of a "ALL_STATION g" b] by blast
  have sym: "get_fnm g kind (Some a) (Some b) sta3 lags pre None =
       get_fnm g kind (Some b) (Some a) sta3 lags pre None"
    by (simp add: get_fnm_def Let_def o1 o2)
  have ok: "\<exists>r made. get_fnm g kind (Some a) (Some b) sta3 lags pre None = Inr (r, made)"
    if "upper kind \<in> set [''I2'', ''I2_LAG_PROC'', ''C3'', ''I3'', ''I3_RAND'', ''I2_LAG_RAW'']"
  proof -
    from that have k: "upper kind \<noteq> ''I2_PATH''" "upper kind \<noteq> ''SOURCE''"
      "upper kind \<noteq> ''SOURCE-STATION''" by auto
    have o: "get_order (map Some (ALL_STATION g)) (Some a)
        (case None of None \<Rightarrow> Some b | Some i2 \<Rightarrow> Some (basename (dirname i2))) =
        Inr (Some s, Some r)" using o1 by simp
    show ?thesis
      using that unfolding get_fnm_ordered [OF k o] by auto
  qed
  have i2: "\<exists>path. get_fnm g kind (Some b) (Some a) sta3 lags pre None = Inr (Path path, []) \<and>
                get_fnm g kind (Some a) (Some b) sta3 lags pre None = Inr (Path path, []) \<and>
                path = join (dir_project (PARAM g))
                         [dir_I2 (PARAM g), a, ''COR_'' @ a @ ''_'' @ b @ ''.SAC''] \<and>
                suffix (''COR_'' @ a @ ''_'' @ b @ ''.SAC'') path \<and>
                sublist (''COR_'' @ a @ ''_'' @ b) path"
    if h: "upper kind = ''I2'' \<and> list_index (ALL_STATION g) a = Some i \<and>
            list_index (ALL_STATION g) b = Some j \<and> i < j" for i j
  proof -
    let ?f = "''COR_'' @ a @ ''_'' @ b @ ''.SAC''"
    let ?path = "join (dir_project (PARAM g)) [dir_I2 (PARAM g), a, ?f]"
    from h have k: "upper kind \<noteq> ''I2_PATH''" "upper kind \<noteq> ''SOURCE''"
      "upper kind \<noteq> ''SOURCE-STATION''" by auto
    from h have o: "get_order (map Some (ALL_STATION g)) (Some b)
        (case None of None \<Rightarrow> Some a | Some i2 \<Rightarrow> Some (basename (dirname i2))) =
        Inr (Some a, Some b)"
      by (simp add: get_order_def list_index_map_Some)
    have 1: "get_fnm g kind (Some b) (Some a) sta3 lags pre None = Inr (Path ?path, [])"
      using h unfolding get_fnm_ordered [OF k o] by simp
    have "?path = join2 (join (dir_project (PARAM g)) [dir_I2 (PARAM g), a]) ?f"
      using join_snoc [of "dir_project (PARAM g)" "[dir_I2 (PARAM g), a]" ?f] by simp
    then have 2: "suffix ?f ?path"
      using join2_suffix [of ?f "join (dir_project (PARAM g)) [dir_I2 (PARAM g), a]"] by simp
    then obtain ps where "?path = ps @ ?f" by (auto simp: suffix_def)
    then have "?path = ps @ (''COR_'' @ a @ ''_'' @ b) @ ''.SAC''" by simp
    then have 3: "sublist (''COR_'' @ a @ ''_'' @ b) ?path"
      unfolding sublist_def by blast
    from 1 2 3 sym show ?thesis by simp
  qed
  from sym ok i2 show "get_fnm g kind (Some a) (Some b) sta3 lags pre None =
       get_fnm g kind (Some b) (Some a) sta3 lags pre None \<and>
     (upper kind \<in> set [''I2'', ''I2_LAG_PROC'', ''C3'', ''I3'', ''I3_RAND'', ''I2_LAG_RAW''] \<longrightarrow>
        (\<exists>r made. get_fnm g kind (Some a) (Some b) sta3 lags pre None = Inr (r, made))) \<and>
     (\<forall>i j. upper kind = ''I2'' \<and> list_index (ALL_STATION g) a = Some i \<and>
            list_index (ALL_STATION g) b = Some j \<and> i < j \<longrightarrow>
        (\<exists>path. get_fnm g kind (Some b) (Some a) sta3 lags pre None = Inr (Path path, []) \<and>
                get_fnm g kind (Some a) (Some b) sta3 lags pre None = Inr (Path path, []) \<and>
                path = join (dir_project (PARAM g))
                         [dir_I2 (PARAM g), a, ''COR_'' @ a @ ''_'' @ b @ ''.SAC''] \<and>
                suffix (''COR_'' @ a @ ''_'' @ b @ ''.SAC'') path \<and>
                sublist (''COR_'' @ a @ ''_'' @ b) path))"
    by blast
qed

lemmas ev = get_fnm_def Let_def demo_globals_def initial_def demo_param_def get_order_def
  upper_def upper_char_def ascii_lowercase_def ascii_uppercase_def
  join_def join2_def sep_def basename_def dirname_def rfind1_def rstrip_sep_def str_def

theorem get_fnm_pair_symmetric_witness:
  "get_fnm demo_globals ''i2'' (Some ''STA2'') (Some ''STA1'') None None None None =
     Inr (Path ''proj/I2/STA1/COR_STA1_STA2.SAC'', []) \<and>
   get_fnm demo_globals ''i2'' (Some ''STA1'') (Some ''STA2'') None None None None =
     Inr (Path ''proj/I2/STA1/COR_STA1_STA2.SAC'', [])"
  using get_fnm_pair_symmetric [of "''STA1''" demo_globals "''STA2''" "''i2''" None None None]
  by (simp add: ev)

text \<open>
  With an I2 path passed as well, \<open>sta2\<close> is replaced by the directory name of that path,
  so exchanging \<open>sta1\<close> and \<open>sta2\<close> changes \<open>sta1\<close> only and the results differ.
\<close>

theorem get_fnm_pair_I2_counterexample:
  "''STA1'' \<in> set (ALL_STATION demo_globals) \<and> ''STA2'' \<in> set (ALL_STATION demo_globals) \<and>
   get_fnm demo_globals ''I2_LAG_RAW'' (Some ''STA1'') (Some ''STA2'') None None None
     (Some ''proj/I2/STA3/COR_STA3_STA1.SAC'') =
     Inr (Paths [''proj/out/STA1/P_COR_STA3_STA1.SAC'', ''proj/out/STA1/N_COR_STA3_STA1.SAC''],
          [''proj/out/STA1'']) \<and>
   get_fnm demo_globals ''I2_LAG_RAW'' (Some ''STA2'') (Some ''STA1'') None None None
     (Some ''proj/I2/STA3/COR_STA3_STA1.SAC'') =
     Inr (Paths [''proj/out/STA2/P_COR_STA3_STA1.SAC'', ''proj/out/STA2/N_COR_STA3_STA1.SAC''],
          [''proj/out/STA2'']) \<and>
   get_fnm demo_globals ''I2_LAG_RAW'' (Some ''STA1'') (Some ''STA2'') None None None
     (Some ''proj/I2/STA3/COR_STA3_STA1.SAC'') \<noteq>
   get_fnm demo_globals ''I2_LAG_RAW'' (Some ''STA2'') (Some ''STA1'') None None None
     (Some ''proj/I2/STA3/COR_STA3_STA1.SAC'')"
  by (simp add: ev)

lemma get_fnm_made:
  assumes "get_fnm g kind sta1 sta2 sta3 lags pre I2 = Inr (r, made)" "made \<noteq> []"
  shows "write_lag (PARAM g) \<and> upper kind = ''I2_LAG_RAW''"
  using assms
  by (auto simp: get_fnm_def Let_def split: if_splits sum.splits option.splits prod.splits)

lemma join_one: "join a [b] = join2 a b"
  by (simp add: join_def)

lemma join_plain2:
  assumes "out \<noteq> []" "last out \<noteq> sep" "src \<noteq> []" "sep \<notin> set src" "n \<noteq> []" "hd n \<noteq> sep"
  shows "join out [src] = out @ ''/'' @ src" "join (join out [src]) [n] = out @ ''/'' @ src @ ''/'' @ n"
proof -
  from assms have "hd src \<noteq> sep" by (cases src) auto
  with assms show 1: "join out [src] = out @ ''/'' @ src"
    by (simp add: join_one join2_def sep_def)
  from assms have "last src \<noteq> sep" by (metis last_in_set)
  with assms 1 show "join (join out [src]) [n] = out @ ''/'' @ src @ ''/'' @ n"
    by (simp add: join_one join2_def sep_def)
qed

text \<open>
  C5.  For kind \<^verbatim>\<open>I2_LAG_RAW\<close>, let \<open>(src, rcv)\<close> be the ordered pair of \<open>sta1\<close> and the
  second station, which is \<open>sta2\<close> when no I2 path is passed and the directory name
  \<^verbatim>\<open>basename(dirname(I2))\<close> of the I2 path otherwise; let \<open>name\<close> be the base name of the
  I2 path (the text \<^verbatim>\<open>None\<close> without one) and \<open>stadir\<close> be \<^verbatim>\<open>join(DIROUT, src)\<close>.  The
  result is the two paths \<^verbatim>\<open>P_name\<close> and \<^verbatim>\<open>N_name\<close> under \<open>stadir\<close> when \<^verbatim>\<open>nlag\<close> is 2
  and the single path \<^verbatim>\<open>S_name\<close> under \<open>stadir\<close> otherwise, and \<open>stadir\<close> is created
  exactly when the option to write lag files is on.  For a \<^verbatim>\<open>DIROUT\<close> that is not empty
  and does not end with the separator and a station name that is not empty and has no
  separator, these paths are literally \<^verbatim>\<open>DIROUT/src/P_name\<close> and so on.  With an I2
  path the argument \<open>sta2\<close> has no influence.  No call of \<open>get_fnm\<close>, of any kind,
  creates a directory unless that option is on and the kind is \<^verbatim>\<open>I2_LAG_RAW\<close>.
\<close>

theorem get_fnm_lag_raw:
  "(upper kind = ''I2_LAG_RAW'' \<and>
    get_order (map Some (ALL_STATION g)) sta1
      (case I2 of None \<Rightarrow> sta2 | Some i2 \<Rightarrow> Some (basename (dirname i2))) =
      Inr (Some src, Some rcv) \<and>
    name = (case I2 of None \<Rightarrow> ''None'' | Some i2 \<Rightarrow> basename i2) \<and>
    stadir = join (DIROUT g) [src] \<longrightarrow>
      get_fnm g kind sta1 sta2 sta3 lags pre I2 =
        Inr (if interferometry_nlag (PARAM g) = 2
             then Paths [join stadir [''P_'' @ name], join stadir [''N_'' @ name]]
             else Paths [join stadir [''S_'' @ name]],
             if write_lag (PARAM g) then [stadir] else []) \<and>
      (DIROUT g \<noteq> [] \<and> last (DIROUT g) \<noteq> sep \<and> src \<noteq> [] \<and> sep \<notin> set src \<longrightarrow>
         stadir = DIROUT g @ ''/'' @ src \<and>
         join stadir [''P_'' @ name] = DIROUT g @ ''/'' @ src @ ''/P_'' @ name \<and>
         join stadir [''N_'' @ name] = DIROUT g @ ''/'' @ src @ ''/N_'' @ name \<and>
         join stadir [''S_'' @ name] = DIROUT g @ ''/'' @ src @ ''/S_'' @ name)) \<and>
   (\<forall>i2 other. get_fnm g kind sta1 sta2 sta3 lags pre (Some i2) =
        get_fnm g kind sta1 other sta3 lags pre (Some i2)) \<and>
   (\<forall>k s1 s2 s3 l p i r made.
        get_fnm g k s1 s2 s3 l p i = Inr (r, made) \<and> made \<noteq> [] \<longrightarrow>
        write_lag (PARAM g) \<and> upper k = ''I2_LAG_RAW'')"
proof (intro conjI impI allI)
  fix i2 other
  show "get_fnm g kind sta1 sta2 sta3 lags pre (Some i2) =
        get_fnm g kind sta1 other sta3 lags pre (Some i2)"
    by (simp add: get_fnm_def Let_def)
next
  fix k s1 s2 s3 l p i r made
  assume "get_fnm g k s1 s2 s3 l p i = Inr (r, made) \<and> made \<noteq> []"
  then show "write_lag (PARAM g)" "upper k = ''I2_LAG_RAW''"
    using get_fnm_made [of g k s1 s2 s3 l p i r made] by simp_all
next
  assume h: "upper kind = ''I2_LAG_RAW'' \<and>
    get_order (map Some (ALL_STATION g)) sta1
      (case I2 of None \<Rightarrow> sta2 | Some i2 \<Rightarrow> Some (basename (dirname i2))) =
      Inr (Some src, Some rcv) \<and>
    name = (case I2 of None \<Rightarrow> ''None'' | Some i2 \<Rightarrow> basename i2) \<and>
    stadir = join (DIROUT g) [src]"
  then have k: "upper kind \<noteq> ''I2_PATH''" "upper kind \<noteq> ''SOURCE''"
      "upper kind \<noteq> ''SOURCE-STATION''" by auto
  from h have o: "get_order (map Some (ALL_STATION g)) sta1
      (case I2 of None \<Rightarrow> sta2 | Some i2 \<Rightarrow> Some (basename (dirname i2))) =
      Inr (Some src, Some rcv)" by simp
  from h have n: "str (map_option basename I2) = name"
    by (cases I2) (simp_all add: str_def)
  show "get_fnm g kind sta1 sta2 sta3 lags pre I2 =
        Inr (if interferometry_nlag (PARAM g) = 2
             then Paths [join stadir [''P_'' @ name], join stadir [''N_'' @ name]]
             else Paths [join stadir [''S_'' @ name]],
             if write_lag (PARAM g) then [stadir] else [])"
    using h unfolding get_fnm_ordered [OF k o] n by simp
  assume p: "DIROUT g \<noteq> [] \<and> last (DIROUT g) \<noteq> sep \<and> src \<noteq> [] \<and> sep \<notin> set src"
  have q: "join (DIROUT g) [src] = DIROUT g @ ''/'' @ src"
    "join (join (DIROUT g) [src]) [x] = DIROUT g @ ''/'' @ src @ ''/'' @ x"
    if "x \<noteq> []" "hd x \<noteq> sep" for x
    using join_plain2 [of "DIROUT g" src x] p that by simp_all
  show "stadir = DIROUT g @ ''/'' @ src"
    using h q(1) [of "''P_''"] by (simp add: sep_def)
  show "join stadir [''P_'' @ name] = DIROUT g @ ''/'' @ src @ ''/P_'' @ name"
    using h q(2) [of "''P_'' @ name"] by (simp add: sep_def)
  show "join stadir [''N_'' @ name] = DIROUT g @ ''/'' @ src @ ''/N_'' @ name"
    using h q(2) [of "''N_'' @ name"] by (simp add: sep_def)
  show "join stadir [''S_'' @ name] = DIROUT g @ ''/'' @ src @ ''/S_'' @ name"
    using h q(2) [of "''S_'' @ name"] by (simp add: sep_def)
qed

theorem get_fnm_lag_raw_witness:
  "get_fnm demo_globals ''i2_lag_raw'' (Some ''STA1'') None None None None
     (Some ''proj/I2/STA3/COR_STA3_STA1.SAC'') =
     Inr (Paths [''proj/out/STA1/P_COR_STA3_STA1.SAC'', ''proj/out/STA1/N_COR_STA3_STA1.SAC''],
          [''proj/out/STA1'']) \<and>
   get_fnm ((initial (demo_param\<lparr>write_lag := False, interferometry_nlag := 1\<rparr>) :: string globals)
              \<lparr>ALL_STATION := [''STA1'', ''STA2'', ''STA3'']\<rparr>)
     ''I2_LAG_RAW'' (Some ''STA3'') (Some ''STA2'') None None None None =
     Inr (Paths [''proj/out/STA2/S_None''], [])"
  using
    get_fnm_lag_raw [of "''i2_lag_raw''" demo_globals "Some ''STA1''"
      "Some ''proj/I2/STA3/COR_STA3_STA1.SAC''" None "''STA1''" "''STA3''"
      "''COR_STA3_STA1.SAC''" "''proj/out/STA1''" None None None]
    get_fnm_lag_raw [of "''I2_LAG_RAW''"
      "(initial (demo_param\<lparr>write_lag := False, interferometry_nlag := 1\<rparr>) :: string globals)
              \<lparr>ALL_STATION := [''STA1'', ''STA2'', ''STA3'']\<rparr>" "Some ''STA3''"
      None "Some ''STA2''" "''STA2''" "''STA3''" "''None''" "''proj/out/STA2''" None None None]
  by (simp add: ev)

text \<open>
  C10.  \<open>get_fnm\<close> depends on its kind through \<open>upper kind\<close> only: a kind gives what
  its upper-case form gives, and kinds that differ in case only give the same result.  For \<^verbatim>\<open>I2_PATH\<close>, and for \<^verbatim>\<open>SOURCE\<close> and
  \<^verbatim>\<open>SOURCE-STATION\<close> alike, the result is a path built from the configuration alone:
  whatever the station arguments are, in \<^verbatim>\<open>ALL_STATION\<close> or not or left out, the call
  returns that path and creates nothing.
\<close>

theorem get_fnm_kind_dispatch:
  "get_fnm g kind sta1 sta2 sta3 lags pre I2 = get_fnm g (upper kind) sta1 sta2 sta3 lags pre I2 \<and>
   (upper kind = upper kind' \<longrightarrow>
      get_fnm g kind sta1 sta2 sta3 lags pre I2 = get_fnm g kind' sta1 sta2 sta3 lags pre I2) \<and>
   (upper kind = ''I2_PATH'' \<longrightarrow>
      get_fnm g kind sta1 sta2 sta3 lags pre I2 =
        Inr (Path (join (DIROUT g) [dir_meta (PARAM g), dir_out (PARAM g) @ sfx_I2 (PARAM g)]), [])) \<and>
   (upper kind = ''SOURCE'' \<or> upper kind = ''SOURCE-STATION'' \<longrightarrow>
      get_fnm g kind sta1 sta2 sta3 lags pre I2 =
        Inr (Path (join (DIROUT g) [dir_meta (PARAM g), dir_out (PARAM g) @ sfx_source (PARAM g)]), []))"
proof (intro conjI impI)
  show "get_fnm g kind sta1 sta2 sta3 lags pre I2 = get_fnm g (upper kind) sta1 sta2 sta3 lags pre I2"
    by (rule get_fnm_upper_cong) (simp add: upper_idem)
next
  assume "upper kind = upper kind'"
  then show "get_fnm g kind sta1 sta2 sta3 lags pre I2 = get_fnm g kind' sta1 sta2 sta3 lags pre I2"
    by (rule get_fnm_upper_cong)
next
  assume "upper kind = ''I2_PATH''"
  then show "get_fnm g kind sta1 sta2 sta3 lags pre I2 =
        Inr (Path (join (DIROUT g) [dir_meta (PARAM g), dir_out (PARAM g) @ sfx_I2 (PARAM g)]), [])"
    unfolding get_fnm_def Let_def by simp
next
  assume "upper kind = ''SOURCE'' \<or> upper kind = ''SOURCE-STATION''"
  then show "get_fnm g kind sta1 sta2 sta3 lags pre I2 =
        Inr (Path (join (DIROUT g) [dir_meta (PARAM g), dir_out (PARAM g) @ sfx_source (PARAM g)]), [])"
    unfolding get_fnm_def Let_def by (elim disjE) simp_all
qed

theorem get_fnm_kind_dispatch_witness:
  "get_fnm demo_globals ''i2_Path'' (Some ''NOWHERE'') None None None None None =
     Inr (Path ''proj/out/meta/out_I2.lst'', []) \<and>
   get_fnm demo_globals ''i2_Path'' (Some ''NOWHERE'') None None None None None =
     get_fnm demo_globals ''I2_PATH'' (Some ''NOWHERE'') None None None None None \<and>
   get_fnm demo_globals ''Source'' None None None None None None =
     Inr (Path ''proj/out/meta/out_src.lst'', []) \<and>
   get_fnm demo_globals ''source-station'' None (Some ''NOWHERE'') None None None None =
     Inr (Path ''proj/out/meta/out_src.lst'', [])"
  using
    get_fnm_kind_dispatch [where g = demo_globals and kind = "''i2_Path''" and kind' = "''I2_PATH''"
      and ?sta1.0 = "Some ''NOWHERE''" and ?sta2.0 = None and ?sta3.0 = None and lags = None
      and pre = None and ?I2.0 = None]
    get_fnm_kind_dispatch [where g = demo_globals and kind = "''Source''" and kind' = "''SOURCE''"
      and ?sta1.0 = None and ?sta2.0 = None and ?sta3.0 = None and lags = None
      and pre = None and ?I2.0 = None]
    get_fnm_kind_dispatch [where g = demo_globals and kind = "''source-station''"
      and kind' = "''SOURCE-STATION''"
      and ?sta1.0 = None and ?sta2.0 = "Some ''NOWHERE''" and ?sta3.0 = None and lags = None
      and pre = None and ?I2.0 = None]
  by (simp add: ev)

section \<open>Properties of \<open>meta\<close> and of the module start\<close>

lemma meta_line_Inr:
  assumes "meta_line env cn cs clo cla g line = Inr g'"
  shows "\<exists>key net lola. line_fields env cn cs clo cla line = Some (key, net, lola) \<and>
     g' = g\<lparr>STNM2LOLA := (STNM2LOLA g)(key \<mapsto> lola), STA2NET := (STA2NET g)(key \<mapsto> net),
             ALL_STATION := ALL_STATION g @ [key]\<rparr>"
  using assms
  by (auto simp: meta_line_def line_fields_def Let_def split: option.splits)

lemma meta_line_fields:
  assumes "line_fields env cn cs clo cla line = Some (key, net, lola)"
  shows "meta_line env cn cs clo cla g line =
     Inr (g\<lparr>STNM2LOLA := (STNM2LOLA g)(key \<mapsto> lola), STA2NET := (STA2NET g)(key \<mapsto> net),
             ALL_STATION := ALL_STATION g @ [key]\<rparr>)"
  using assms
  by (auto simp: meta_line_def line_fields_def Let_def split: option.splits Option.bind_splits)

lemma meta_lines_Inr:
  "meta_lines env cn cs clo cla g lines = Inr g' \<Longrightarrow>
   \<exists>recs. list_all2 (\<lambda>l r. line_fields env cn cs clo cla l = Some r) lines recs \<and>
     ALL_STATION g' = ALL_STATION g @ map fst recs \<and>
     STA2NET g' = STA2NET g ++ map_of (rev (map net_of recs)) \<and>
     STNM2LOLA g' = STNM2LOLA g ++ map_of (rev (map lola_of recs)) \<and>
     PARAM g' = PARAM g"
proof (induction lines arbitrary: g)
  case Nil
  then show ?case by simp
next
  case (Cons line rest)
  from Cons.prems obtain g1 where
    1: "meta_line env cn cs clo cla g line = Inr g1" and
    2: "meta_lines env cn cs clo cla g1 rest = Inr g'"
    by (auto split: sum.splits)
  from meta_line_Inr [OF 1] obtain key net lola where
    lf: "line_fields env cn cs clo cla line = Some (key, net, lola)" and
    g1: "g1 = g\<lparr>STNM2LOLA := (STNM2LOLA g)(key \<mapsto> lola), STA2NET := (STA2NET g)(key \<mapsto> net),
             ALL_STATION := ALL_STATION g @ [key]\<rparr>"
    by blast
  from Cons.IH [OF 2] obtain recs where
    r: "list_all2 (\<lambda>l r. line_fields env cn cs clo cla l = Some r) rest recs" and
    a: "ALL_STATION g' = ALL_STATION g1 @ map fst recs" and
    n: "STA2NET g' = STA2NET g1 ++ map_of (rev (map net_of recs))" and
    l: "STNM2LOLA g' = STNM2LOLA g1 ++ map_of (rev (map lola_of recs))" and
    f: "PARAM g' = PARAM g1"
    by blast
  let ?recs = "(key, net, lola) # recs"
  have "list_all2 (\<lambda>l r. line_fields env cn cs clo cla l = Some r) (line # rest) ?recs"
    using lf r by simp
  moreover have "ALL_STATION g' = ALL_STATION g @ map fst ?recs"
    using a g1 by simp
  moreover have "STA2NET g' = STA2NET g ++ map_of (rev (map net_of ?recs))"
    using n g1 by (simp add: net_of_def map_add_upd_left)
  moreover have "STNM2LOLA g' = STNM2LOLA g ++ map_of (rev (map lola_of ?recs))"
    using l g1 by (simp add: lola_of_def)
  moreover have "PARAM g' = PARAM g"
    using f g1 by simp
  ultimately show ?case by blast
qed

lemma map_of_rev_last:
  "i < length xs \<Longrightarrow> xs ! i = (k, v) \<Longrightarrow> (\<forall>j. i < j \<and> j < length xs \<longrightarrow> fst (xs ! j) \<noteq> k) \<Longrightarrow>
   map_of (rev xs) k = Some v"
proof (induction xs rule: rev_induct)
  case Nil
  then show ?case by simp
next
  case (snoc x xs)
  show ?case
  proof (cases "i = length xs")
    case True
    with snoc.prems(2) have "x = (k, v)" by simp
    then show ?thesis by simp
  next
    case False
    with snoc.prems(1) have i: "i < length xs" by simp
    with snoc.prems(2) have at: "xs ! i = (k, v)" by (simp add: nth_append)
    from snoc.prems(3) [rule_format, of "length xs"] i have "fst x \<noteq> k" by simp
    moreover have "\<forall>j. i < j \<and> j < length xs \<longrightarrow> fst (xs ! j) \<noteq> k"
    proof (intro allI impI)
      fix j assume j: "i < j \<and> j < length xs"
      with snoc.prems(3) [rule_format, of j] show "fst (xs ! j) \<noteq> k"
        by (simp add: nth_append)
    qed
    ultimately show ?thesis
      using snoc.IH [OF i at] by (cases x) simp
  qed
qed

lemma meta_Inr:
  assumes "meta env g name cn cs clo cla = Inr g'"
  shows "\<exists>lines recs. read_lines env (join (dir_project (PARAM g)) [name]) = Some lines \<and>
     list_all2 (\<lambda>l r. line_fields env cn cs clo cla l = Some r) lines recs \<and>
     ALL_STATION g' = ALL_STATION g @ map fst recs \<and>
     STA2NET g' = STA2NET g ++ map_of (rev (map net_of recs)) \<and>
     STNM2LOLA g' = STNM2LOLA g ++ map_of (rev (map lola_of recs)) \<and>
     PARAM g' = PARAM g"
proof -
  from assms obtain lines g1 where
    rd: "read_lines env (join (dir_project (PARAM g)) [name]) = Some lines" and
    ml: "meta_lines env cn cs clo cla g lines = Inr g1" and
    fr: "ALL_STATION g' = ALL_STATION g1" "STA2NET g' = STA2NET g1"
      "STNM2LOLA g' = STNM2LOLA g1" "PARAM g' = PARAM g1"
    by (auto simp: meta_def Let_def split: option.splits sum.splits if_splits)
  from meta_lines_Inr [OF ml] rd fr show ?thesis by auto
qed

text \<open>
  C9 (as amended).  When \<open>meta\<close> succeeds, every line of the station file was read into a
  record (station id, network, coordinates), and: \<^verbatim>\<open>ALL_STATION\<close> is what it was before
  with one id appended per line, in file order, so an id on several lines is in the list
  as many times; \<^verbatim>\<open>STA2NET\<close> and \<^verbatim>\<open>STNM2LOLA\<close> are what they were before, overwritten
  line by line, so that for an id on several lines the last line wins: the id maps to the
  network and the coordinates of the last line that carries it.
\<close>

theorem meta_duplicates:
  "meta env g name cn cs clo cla = Inr g' \<longrightarrow>
   (\<exists>lines recs. read_lines env (join (dir_project (PARAM g)) [name]) = Some lines \<and>
      list_all2 (\<lambda>l r. line_fields env cn cs clo cla l = Some r) lines recs \<and>
      ALL_STATION g' = ALL_STATION g @ map fst recs \<and>
      length (ALL_STATION g') = length (ALL_STATION g) + length lines \<and>
      STA2NET g' = STA2NET g ++ map_of (rev (map net_of recs)) \<and>
      STNM2LOLA g' = STNM2LOLA g ++ map_of (rev (map lola_of recs)) \<and>
      (\<forall>i key net lola. i < length recs \<and> recs ! i = (key, net, lola) \<and>
          (\<forall>j. i < j \<and> j < length recs \<longrightarrow> fst (recs ! j) \<noteq> key) \<longrightarrow>
          STA2NET g' key = Some net \<and> STNM2LOLA g' key = Some lola))"
proof
  assume "meta env g name cn cs clo cla = Inr g'"
  from meta_Inr [OF this] obtain lines recs where
    rd: "read_lines env (join (dir_project (PARAM g)) [name]) = Some lines" and
    la: "list_all2 (\<lambda>l r. line_fields env cn cs clo cla l = Some r) lines recs" and
    a: "ALL_STATION g' = ALL_STATION g @ map fst recs" and
    n: "STA2NET g' = STA2NET g ++ map_of (rev (map net_of recs))" and
    l: "STNM2LOLA g' = STNM2LOLA g ++ map_of (rev (map lola_of recs))"
    by blast
  from la have len: "length lines = length recs" by (rule list_all2_lengthD)
  have last: "STA2NET g' key = Some net \<and> STNM2LOLA g' key = Some lola"
    if h: "i < length recs \<and> recs ! i = (key, net, lola) \<and>
          (\<forall>j. i < j \<and> j < length recs \<longrightarrow> fst (recs ! j) \<noteq> key)" for i key net lola
  proof -
    have "map_of (rev (map net_of recs)) key = Some net"
      using h by (intro map_of_rev_last [of i]) (auto simp: net_of_def)
    moreover have "map_of (rev (map lola_of recs)) key = Some lola"
      using h by (intro map_of_rev_last [of i]) (auto simp: lola_of_def)
    ultimately show ?thesis using n l by (simp add: map_add_def)
  qed
  from rd la a n l len last
  show "\<exists>lines recs. read_lines env (join (dir_project (PARAM g)) [name]) = Some lines \<and>
      list_all2 (\<lambda>l r. line_fields env cn cs clo cla l = Some r) lines recs \<and>
      ALL_STATION g' = ALL_STATION g @ map fst recs \<and>
      length (ALL_STATION g') = length (ALL_STATION g) + length lines \<and>
      STA2NET g' = STA2NET g ++ map_of (rev (map net_of recs)) \<and>
      STNM2LOLA g' = STNM2LOLA g ++ map_of (rev (map lola_of recs)) \<and>
      (\<forall>i key net lola. i < length recs \<and> recs ! i = (key, net, lola) \<and>
          (\<forall>j. i < j \<and> j < length recs \<longrightarrow> fst (recs ! j) \<noteq> key) \<longrightarrow>
          STA2NET g' key = Some net \<and> STNM2LOLA g' key = Some lola)"
    by (intro exI [of _ lines] exI [of _ recs]) simp
qed

lemmas ev_meta = meta_def meta_line_def Let_def demo_env_def initial_def demo_param_def
  split_def isspace_def getitem_def join_def join2_def sep_def

lemma meta_demo:
  "meta demo_env (initial demo_param) ''sta.lst'' 0 1 2 3 =
     Inr ((initial demo_param)
       \<lparr>STA2NET := [''STA2'' \<mapsto> ''N2'', ''STA1'' \<mapsto> ''N9''],
        STNM2LOLA := [''STA2'' \<mapsto> [''101.0'', ''31.0''], ''STA1'' \<mapsto> [''102.5'', ''32.5'']],
        ALL_STATION := [''STA1'', ''STA2'', ''STA1''],
        RECEIVER_STATION := [''STA1'', ''STA2''], RECEIVER_GROUP := None,
        SOURCE_STATION := [''STA2'']\<rparr>)"
  by (simp add: ev_meta fun_upd_twist)

theorem meta_duplicates_witness:
  "map_sum id ALL_STATION (meta demo_env (initial demo_param) ''sta.lst'' 0 1 2 3) =
     Inr [''STA1'', ''STA2'', ''STA1''] \<and>
   map_sum id (\<lambda>g. STA2NET g ''STA1'') (meta demo_env (initial demo_param) ''sta.lst'' 0 1 2 3) =
     Inr (Some ''N9'') \<and>
   map_sum id (\<lambda>g. STNM2LOLA g ''STA1'') (meta demo_env (initial demo_param) ''sta.lst'' 0 1 2 3) =
     Inr (Some [''102.5'', ''32.5''])"
  using meta_duplicates [of demo_env "initial demo_param" "''sta.lst''" 0 1 2 3
      "(initial demo_param)
       \<lparr>STA2NET := [''STA2'' \<mapsto> ''N2'', ''STA1'' \<mapsto> ''N9''],
        STNM2LOLA := [''STA2'' \<mapsto> [''101.0'', ''31.0''], ''STA1'' \<mapsto> [''102.5'', ''32.5'']],
        ALL_STATION := [''STA1'', ''STA2'', ''STA1''],
        RECEIVER_STATION := [''STA1'', ''STA2''], RECEIVER_GROUP := None,
        SOURCE_STATION := [''STA2'']\<rparr>"]
  by (simp add: meta_demo)

text \<open>
  The list is not overwritten: a station file whose third line repeats the id of its
  first gives a list of three ids in which that id occurs twice, and \<^verbatim>\<open>list.index\<close>,
  hence \<open>get_order\<close>, finds it at its first place.
\<close>

theorem meta_list_keeps_duplicates_counterexample:
  "map_sum id ALL_STATION (meta demo_env (initial demo_param) ''sta.lst'' 0 1 2 3) =
     Inr [''STA1'', ''STA2'', ''STA1''] \<and>
   \<not> distinct [''STA1'', ''STA2'', ''STA1''] \<and>
   list_index [''STA1'', ''STA2'', ''STA1''] ''STA1'' = Some 0"
  by (simp add: meta_demo)

lemma meta_lines_fields:
  "list_all2 (\<lambda>l r. line_fields env cn cs clo cla l = Some r) lines recs \<Longrightarrow>
   \<exists>g'. meta_lines env cn cs clo cla g lines = Inr g' \<and>
     ALL_STATION g' = ALL_STATION g @ map fst recs \<and> PARAM g' = PARAM g"
proof (induction lines recs arbitrary: g rule: list_all2_induct)
  case Nil
  then show ?case by simp
next
  case (Cons l lines r recs)
  obtain key net lola where r: "r = (key, net, lola)" by (cases r) auto
  let ?g1 = "g\<lparr>STNM2LOLA := (STNM2LOLA g)(key \<mapsto> lola), STA2NET := (STA2NET g)(key \<mapsto> net),
             ALL_STATION := ALL_STATION g @ [key]\<rparr>"
  from Cons.hyps(1) r have 1: "meta_line env cn cs clo cla g l = Inr ?g1"
    by (simp add: meta_line_fields)
  from Cons.IH [of ?g1] obtain g' where
    "meta_lines env cn cs clo cla ?g1 lines = Inr g'"
    "ALL_STATION g' = ALL_STATION ?g1 @ map fst recs" "PARAM g' = PARAM ?g1"
    by blast
  with 1 r show ?case by simp
qed

lemma meta_twice:
  assumes "meta env g name cn cs clo cla = Inr g1"
  shows "\<exists>g2 keys. meta env g1 name cn cs clo cla = Inr g2 \<and>
     ALL_STATION g1 = ALL_STATION g @ keys \<and> ALL_STATION g2 = ALL_STATION g @ keys @ keys \<and>
     RECEIVER_STATION g2 = RECEIVER_STATION g1 \<and> RECEIVER_GROUP g2 = RECEIVER_GROUP g1 \<and>
     SOURCE_STATION g2 = SOURCE_STATION g1"
proof -
  from meta_Inr [OF assms] obtain lines recs where
    rd: "read_lines env (join (dir_project (PARAM g)) [name]) = Some lines" and
    la: "list_all2 (\<lambda>l r. line_fields env cn cs clo cla l = Some r) lines recs" and
    a: "ALL_STATION g1 = ALL_STATION g @ map fst recs" and
    p: "PARAM g1 = PARAM g"
    by blast
  from meta_lines_fields [OF la, of g1] obtain g' where
    ml: "meta_lines env cn cs clo cla g1 lines = Inr g'" and
    a': "ALL_STATION g' = ALL_STATION g1 @ map fst recs"
    by blast
  from assms rd obtain rs gs ss where
    rc: "rcol env (join (dir_project (PARAM g)) [fstation_receiver_name (PARAM g)]) 0 = Inr rs"
      "(if fstation_receiver_group (PARAM g)
        then map_sum id Some (rcol env (join (dir_project (PARAM g)) [fstation_receiver_name (PARAM g)]) 1)
        else Inr None) = Inr gs"
      "rcol env (join (dir_project (PARAM g)) [fstation_source (PARAM g)]) 0 = Inr ss" and
    f: "RECEIVER_STATION g1 = rs" "RECEIVER_GROUP g1 = gs" "SOURCE_STATION g1 = ss"
    by (auto simp: meta_def Let_def split: sum.splits)
  have "meta env g1 name cn cs clo cla =
      Inr (g'\<lparr>RECEIVER_STATION := rs, RECEIVER_GROUP := gs, SOURCE_STATION := ss\<rparr>)"
    using rd ml rc by (simp add: meta_def Let_def p)
  with a a' f show ?thesis by simp
qed

text \<open>
  C8.  The docstring of \<^verbatim>\<open>_meta\<close> says that it overwrites \<^verbatim>\<open>ALL_STATION\<close>; the code
  appends to it.  Loading the same two-line station file twice gives a list of two ids
  after the first load and of four after the second, so the load is not idempotent.
  \<open>meta_twice\<close> says the same of every station file: the second load succeeds when
  the first did, appends the same ids once more and leaves the receiver and source lists
  as they were.
\<close>

theorem meta_twice_doubles:
  "map_sum id ALL_STATION (meta demo_env (initial demo_param) ''two.lst'' 0 1 2 3) =
     Inr [''STA1'', ''STA2''] \<and>
   map_sum id ALL_STATION
     (case meta demo_env (initial demo_param) ''two.lst'' 0 1 2 3 of
        Inl e \<Rightarrow> Inl e
      | Inr g1 \<Rightarrow> meta demo_env g1 ''two.lst'' 0 1 2 3) =
     Inr [''STA1'', ''STA2'', ''STA1'', ''STA2'']"
  by (simp add: ev_meta)

lemma operator_flags_unknown:
  "lower (interferometry_operator p) \<notin> set [''conv'', ''convolution''] \<Longrightarrow>
   lower (interferometry_operator p) \<notin> set [''corr'', ''correlation''] \<Longrightarrow>
   operator_flags p =
     (case interferometry_type p of
        None \<Rightarrow> Inl (KeyError ''type'')
      | Some t \<Rightarrow> Inl (ValueError (''Unknown operator '' @ t)))"
  by (simp add: operator_flags_def)

text \<open>
  C7.  An unknown wave type fails with a \<^verbatim>\<open>ValueError\<close> whose message holds the
  offending value.  An unknown operator does not: the message is built from
  \<^verbatim>\<open>PARAM['interferometry']['type']\<close>, so the failure is \<^verbatim>\<open>KeyError('type')\<close> when there is
  no such entry and otherwise a \<^verbatim>\<open>ValueError\<close> that names the value of that other entry,
  never the operator that was given.
\<close>

theorem operator_error_reads_type:
  "operator_flags (demo_param\<lparr>interferometry_operator := ''bogus''\<rparr>) = Inl (KeyError ''type'') \<and>
   operator_flags (demo_param\<lparr>interferometry_operator := ''bogus'',
                               interferometry_type := Some ''xcorr''\<rparr>) =
     Inl (ValueError ''Unknown operator xcorr'') \<and>
   (configure (demo_param\<lparr>interferometry_operator := ''bogus''\<rparr>)
      :: error + (string globals \<times> string list)) = Inl (KeyError ''type'') \<and>
   wavetype_flags (demo_param\<lparr>misc_wavetype := ''bogus''\<rparr>) =
     Inl (ValueError ''Unknown type of signal bogus'')"
  by (simp add: operator_flags_def wavetype_flags_def configure_def demo_param_def
      lower_def lower_char_def ascii_uppercase_def ascii_lowercase_def)

end
